theory Spec2Isabelle
  imports Complex_Main "HOL-Library.AList"
begin

section \<open>Conventions of the embedding\<close>

text \<open>
  The bot is \<^verbatim>\<open>src/beta_version/code/solana_memecoin_bot.py\<close>, its trader
  \<^verbatim>\<open>src/beta_version/code/trading/solana_trader.py\<close>, its configuration
  \<^verbatim>\<open>src/beta_version/code/config.py\<close>, its analyzer and predictor
  \<^verbatim>\<open>src/beta_version/code/token_analysis/token_analyzer.py\<close> and \<^verbatim>\<open>ai_predictor.py\<close>.

  \<^item> A Python \<^verbatim>\<open>float\<close> is a \<^typ>\<open>real\<close>: the arithmetic of the source is read
    exactly, without rounding, but for the one subtraction whose result the source
    tests with \<^verbatim>\<open>==\<close> (\<open>sell_percentage\<close>), where the rounding is written out. A
    Python \<^verbatim>\<open>int\<close> is an \<^typ>\<open>int\<close>.
  \<^item> A \<^verbatim>\<open>datetime\<close> is the number of microseconds since the epoch, a
    \<^verbatim>\<open>timedelta\<close> a number of microseconds (Python keeps both to the microsecond).
  \<^item> The string constants the source uses as enumerations (recommendations, position
    statuses, exit reasons) are datatypes with one constructor per literal.
  \<^item> A \<^verbatim>\<open>Dict[str, Any]\<close> that the bot reads through a fixed set of keys is a record
    with one optional field per key: \<open>None\<close> is the absent key, and \<^verbatim>\<open>d.get(k, v)\<close>
    is \<open>py_get (k d) v\<close>.
  \<^item> A dictionary keyed by token address is an association list in insertion order
    (Python iterates a dict in insertion order): \<open>map_of\<close> looks up,
    \<open>AList.update\<close> stores, \<open>AList.delete\<close> removes.
  \<^item> An \<^verbatim>\<open>await\<close> on an external service is a value supplied by the environment.
\<close>

definition py_get :: "'a option \<Rightarrow> 'a \<Rightarrow> 'a" where
  "py_get field dflt = (case field of None \<Rightarrow> dflt | Some v \<Rightarrow> v)"

section \<open>Configuration (config.py)\<close>

record TradingConfig =
  buy_amount_sol :: real
  max_buy_amount_sol :: real
  min_buy_amount_sol :: real
  buy_slippage :: real
  sell_slippage :: real
  take_profit_multiplier :: real
  moonbag_percentage :: real
  stop_loss_percentage :: real
  priority_fee_lamports :: int
  max_positions :: int
  position_size_percentage :: real

definition trading_config :: TradingConfig where
  "trading_config =
     \<lparr> buy_amount_sol = 3 / 2, max_buy_amount_sol = 2, min_buy_amount_sol = 1,
       buy_slippage = 20 / 100, sell_slippage = 25 / 100,
       take_profit_multiplier = 10, moonbag_percentage = 15 / 100,
       stop_loss_percentage = 50 / 100, priority_fee_lamports = 10000,
       max_positions = 5, position_size_percentage = 2 / 10 \<rparr>"

record FilterConfig =
  min_safety_score :: int
  min_market_cap :: real
  max_market_cap :: real
  min_liquidity :: real
  require_locked_liquidity :: bool
  require_verified_contract :: bool
  require_disabled_mint :: bool
  min_social_score :: real
  min_mentions_count :: int
  min_volume_24h :: real
  max_age_hours :: int

definition filter_config :: FilterConfig where
  "filter_config =
     \<lparr> min_safety_score = 80, min_market_cap = 10000, max_market_cap = 1000000,
       min_liquidity = 5000, require_locked_liquidity = True,
       require_verified_contract = True, require_disabled_mint = True,
       min_social_score = 6 / 10, min_mentions_count = 5,
       min_volume_24h = 1000, max_age_hours = 24 \<rparr>"

section \<open>Assessment: market filters, market score, recommendation\<close>

text \<open>
  The keys of \<^verbatim>\<open>market_data\<close> that the bot and the technical score of the predictor
  read, and the keys of \<^verbatim>\<open>ai_prediction\<close>: \<^verbatim>\<open>success_probability\<close> and \<^verbatim>\<open>confidence\<close>, and
  the \<^verbatim>\<open>error\<close> that only the outermost handler of \<^verbatim>\<open>AIPredictor.predict_success\<close>
  writes. The empty dictionary \<^verbatim>\<open>{}\<close> has every field \<open>None\<close>.
\<close>

record MarketData =
  market_cap :: "real option"
  liquidity :: "real option"
  volume_24h :: "real option"
  age_hours :: "real option"
  holder_count :: "real option"
  liquidity_locked :: "bool option"
  mint_disabled :: "bool option"
  volume_mc_ratio :: "real option"
  liquidity_mc_ratio :: "real option"
  distribution_score :: "real option"

definition empty_market_data :: MarketData where
  "empty_market_data =
     \<lparr> market_cap = None, liquidity = None, volume_24h = None, age_hours = None,
       holder_count = None, liquidity_locked = None, mint_disabled = None,
       volume_mc_ratio = None, liquidity_mc_ratio = None, distribution_score = None \<rparr>"

record AIPrediction =
  success_probability :: "real option"
  confidence :: "real option"
  prediction_error :: "string option"

definition empty_ai_prediction :: AIPrediction where
  "empty_ai_prediction =
     \<lparr> success_probability = None, confidence = None, prediction_error = None \<rparr>"

datatype Recommendation = BUY | MONITOR | PASS

text \<open>\<^verbatim>\<open>_check_market_filters\<close>, with the filter configuration as a parameter.\<close>

definition check_market_filters :: "FilterConfig \<Rightarrow> MarketData \<Rightarrow> bool" where
  "check_market_filters fc md =
     (let mc = py_get (market_cap md) 0;
          liq = py_get (liquidity md) 0;
          vol = py_get (volume_24h md) 0
      in if mc < min_market_cap fc \<or> mc > max_market_cap fc then False
         else if liq < min_liquidity fc then False
         else if vol < min_volume_24h fc then False
         else if require_locked_liquidity fc \<and> \<not> py_get (liquidity_locked md) False then False
         else if require_disabled_mint fc \<and> \<not> py_get (mint_disabled md) False then False
         else True)"

text \<open>\<^verbatim>\<open>_calculate_market_score\<close>: the running \<^verbatim>\<open>score\<close> is the sum of the four terms.\<close>

definition calculate_market_score :: "MarketData \<Rightarrow> real" where
  "calculate_market_score md =
     (let volume = py_get (volume_24h md) 0;
          volume_score = min (volume / 10000) 1;
          liq = py_get (liquidity md) 0;
          liquidity_score = min (liq / 50000) 1;
          age = py_get (age_hours md) 24;
          age_score = max 0 (1 - age / 24);
          holders = py_get (holder_count md) 1;
          holder_score = min (holders / 1000) 1;
          score = 0 + volume_score * (3 / 10) + liquidity_score * (3 / 10)
                    + age_score * (2 / 10) + holder_score * (2 / 10)
      in min score 1)"

text \<open>
  The local \<^verbatim>\<open>combined_score\<close> of \<^verbatim>\<open>_get_recommendation\<close>:
  \<^verbatim>\<open>(safety_score * 0.4 + ai_score * 100 * 0.4 + market_score * 0.2) / 100\<close>.
\<close>

definition combined_score :: "int \<Rightarrow> MarketData \<Rightarrow> AIPrediction \<Rightarrow> real" where
  "combined_score safety_score md ai =
     (let ai_score = py_get (success_probability ai) 0;
          market_score = calculate_market_score md
      in (real_of_int safety_score * (4 / 10) + ai_score * 100 * (4 / 10)
            + market_score * (2 / 10)) / 100)"

definition get_recommendation ::
  "FilterConfig \<Rightarrow> int \<Rightarrow> MarketData \<Rightarrow> AIPrediction \<Rightarrow> Recommendation" where
  "get_recommendation fc safety_score md ai =
     (if safety_score < min_safety_score fc then PASS
      else let c = combined_score safety_score md ai
           in if c \<ge> 75 / 100 then BUY
              else if c \<ge> 6 / 10 then MONITOR
              else PASS)"

section \<open>Time\<close>

type_synonym datetime = int
type_synonym timedelta = int

text \<open>
  \<^verbatim>\<open>timedelta.seconds\<close> is the seconds field of the normalised
  (days, seconds, microseconds) triple, between 0 and 86399;
  \<^verbatim>\<open>timedelta.total_seconds()\<close> is the whole duration in seconds.
\<close>

definition td_seconds :: "timedelta \<Rightarrow> int" where
  "td_seconds td = (td div 1000000) mod 86400"

definition td_days :: "timedelta \<Rightarrow> int" where
  "td_days td = td div 86400000000"

definition total_seconds :: "timedelta \<Rightarrow> real" where
  "total_seconds td = real_of_int td / 1000000"

definition of_seconds :: "int \<Rightarrow> timedelta" where
  "of_seconds s = s * 1000000"

section \<open>The data classes of the bot\<close>

text \<open>
  \<^verbatim>\<open>TokenDiscovery.social_metrics\<close> is never read or written by the bot and is left
  out. \<^verbatim>\<open>Position.symbol\<close> is \<open>position_symbol\<close> (a record field name is global).
  \<^verbatim>\<open>Position.tokens_held\<close> is optional because \<^verbatim>\<open>_execute_buy_order\<close> stores
  \<^verbatim>\<open>result['tokens_received']\<close> in it, which \<^verbatim>\<open>TradeResult\<close> leaves \<^verbatim>\<open>None\<close> unless the
  swap sets it.
\<close>

record TokenDiscovery =
  symbol :: string
  contract_address :: string
  source :: string
  timestamp :: datetime
  original_message :: string
  author :: string
  platform_url :: string
  confidence_score :: real

record TokenAnalysis =
  token_discovery :: TokenDiscovery
  safety_score :: int
  market_data :: MarketData
  ai_prediction :: AIPrediction
  filter_passed :: bool
  analysis_timestamp :: datetime
  recommendation :: Recommendation

datatype PositionStatus = OPEN | CLOSED | PARTIAL_CLOSE

record Position =
  token_address :: string
  position_symbol :: string
  entry_price :: real
  current_price :: real
  amount_sol :: real
  tokens_held :: "real option"
  entry_timestamp :: datetime
  status :: PositionStatus
  pnl_percent :: real
  stop_loss_price :: real
  take_profit_price :: real

section \<open>The trader (solana_trader.py)\<close>

text \<open>
  The messages of a failed \<^verbatim>\<open>TradeResult\<close>:
  \<open>ClientNotInitialized\<close> is \<^verbatim>\<open>"Solana client not initialized"\<close>,
  \<open>QuoteFailed\<close> is \<^verbatim>\<open>"Failed to get quote"\<close>,
  \<open>InsufficientSOL b a\<close> is \<^verbatim>\<open>f"Insufficient SOL balance: {b} < {a}"\<close>,
  \<open>InsufficientToken b a\<close> is \<^verbatim>\<open>f"Insufficient token balance: {b} < {a}"\<close>,
  \<open>UnsupportedDEX d\<close> is \<^verbatim>\<open>f"Unsupported DEX: {d}"\<close>,
  \<open>AiohttpMissing\<close> is \<^verbatim>\<open>"aiohttp not available"\<close>,
  \<open>SendFailed\<close> is \<^verbatim>\<open>"Transaction failed to send"\<close>,
  \<open>JupiterSwapFailed t\<close> is \<^verbatim>\<open>f"Jupiter swap failed: {t}"\<close>, and
  \<open>Raised e\<close> is \<^verbatim>\<open>str(e)\<close> of a caught exception.
  The fields \<^verbatim>\<open>gas_used\<close> and \<^verbatim>\<open>timestamp\<close> of \<^verbatim>\<open>TradeResult\<close> are never read and are
  left out.
\<close>

datatype TradeError =
    ClientNotInitialized
  | QuoteFailed
  | InsufficientSOL real real
  | InsufficientToken real real
  | UnsupportedDEX string
  | AiohttpMissing
  | SendFailed
  | JupiterSwapFailed string
  | Raised string

record TradeResult =
  success :: bool
  transaction_id :: "string option"
  price :: "real option"
  amount_in :: "real option"
  amount_out :: "real option"
  tokens_received :: "real option"
  sol_received :: "real option"
  error :: "TradeError option"

text \<open>\<^verbatim>\<open>TradeResult(success=False, error=e)\<close>: every other field keeps its default.\<close>

definition failed_trade :: "TradeError \<Rightarrow> TradeResult" where
  "failed_trade e =
     \<lparr> success = False, transaction_id = None, price = None, amount_in = None,
       amount_out = None, tokens_received = None, sol_received = None, error = Some e \<rparr>"


subsection \<open>Confirmation polling\<close>

text \<open>
  \<^verbatim>\<open>status.value\<close> of \<^verbatim>\<open>client.get_signature_status\<close> is \<open>None\<close> or a status with an
  optional \<^verbatim>\<open>confirmation_status\<close> and an optional \<^verbatim>\<open>err\<close>. A poll may also raise.
\<close>

record SignatureStatus =
  confirmation_status :: "string option"
  err :: "string option"

datatype PollResponse = PollRaised | PollValue "SignatureStatus option"

text \<open>Python truthiness of an optional string: present and not empty.\<close>

definition truthy :: "string option \<Rightarrow> bool" where
  "truthy v = (case v of None \<Rightarrow> False | Some s \<Rightarrow> s \<noteq> [])"

text \<open>
  The body of the polling loop after one poll: \<open>Some True\<close> and \<open>Some False\<close> are the
  two \<^verbatim>\<open>return\<close>s, \<open>None\<close> falls through to \<^verbatim>\<open>await asyncio.sleep(2)\<close>.
\<close>

definition poll_verdict :: "SignatureStatus option \<Rightarrow> bool option" where
  "poll_verdict v =
     (case v of
        None \<Rightarrow> None
      | Some st \<Rightarrow>
          if truthy (confirmation_status st) then
            if confirmation_status st \<in> {Some ''confirmed'', Some ''finalized''} then Some True
            else if truthy (err st) then Some False
            else None
          else None)"

text \<open>
  The clock counts microseconds since \<^verbatim>\<open>start_time\<close>. Poll number \<open>i\<close> takes
  \<open>delay i\<close> microseconds (the call, and whatever the sleep overshoots), then the loop
  sleeps two seconds. The result is the returned boolean and the instants at which
  \<^verbatim>\<open>get_signature_status\<close> was called.
\<close>

function wait_loop ::
  "(nat \<Rightarrow> PollResponse) \<Rightarrow> (nat \<Rightarrow> nat) \<Rightarrow> nat \<Rightarrow> nat \<Rightarrow> nat \<Rightarrow> bool \<times> nat list" where
  "wait_loop poll delay timeout elapsed i =
     (if elapsed < timeout then
        (case poll i of
           PollRaised \<Rightarrow> (False, [elapsed])
         | PollValue v \<Rightarrow>
             (case poll_verdict v of
                Some r \<Rightarrow> (r, [elapsed])
              | None \<Rightarrow>
                  (fst (wait_loop poll delay timeout (elapsed + delay i + 2000000) (Suc i)),
                   elapsed # snd (wait_loop poll delay timeout (elapsed + delay i + 2000000) (Suc i)))))
      else (False, []))"
  by pat_completeness auto
termination
  by (relation "measure (\<lambda>(poll, delay, timeout, elapsed, i). timeout - elapsed)") auto

text \<open>
  The environment of one Jupiter swap: whether \<^verbatim>\<open>aiohttp\<close> was imported, the answer to
  the POST of the swap, the answer of \<^verbatim>\<open>client.send_transaction\<close>, whether
  \<^verbatim>\<open>Signature.from_string\<close> accepts the transaction id, and the polls.
\<close>

datatype SwapResponse = SwapOk | SwapHttpError string | SwapRaised string

datatype SendResult = Sent "string option" | SendRaised string

record ChainEnv =
  has_aiohttp :: bool
  swap_response :: SwapResponse
  send_result :: SendResult
  signature_valid :: bool
  poll_answers :: "nat \<Rightarrow> PollResponse"
  poll_delays :: "nat \<Rightarrow> nat"

text \<open>\<^verbatim>\<open>_wait_for_confirmation\<close>, with \<^verbatim>\<open>timeout\<close> in seconds (60 by default).\<close>

definition wait_for_confirmation :: "ChainEnv \<Rightarrow> nat \<Rightarrow> bool \<times> nat list" where
  "wait_for_confirmation env timeout =
     (if \<not> signature_valid env then (False, [])
      else wait_loop (poll_answers env) (poll_delays env) (timeout * 1000000) 0 0)"

datatype Quote =
    JupiterQuote (inAmount: real) (outAmount: real)
  | RaydiumQuote (quote_price: real) (estimated_output: real)

text \<open>
  \<^verbatim>\<open>transaction.sign([self.wallet])\<close> in \<^verbatim>\<open>_execute_jupiter_swap\<close>. The transaction is a
  \<^verbatim>\<open>VersionedTransaction\<close> of \<^verbatim>\<open>solders.transaction\<close>, as the module imports it; that
  class has no method \<^verbatim>\<open>sign\<close> (a versioned transaction is signed when it is built), so
  the call raises \<^verbatim>\<open>AttributeError\<close>.
\<close>

definition sign_versioned_transaction :: "string + unit" where
  "sign_versioned_transaction = Inl ''VersionedTransaction object has no attribute sign''"

text \<open>
  \<^verbatim>\<open>_execute_jupiter_swap\<close>. After a 200 answer the transaction is deserialised and
  signed; the handler turns the exception of the signing into a failed result. The
  lines after the signing are kept as the source has them: the value of
  \<^verbatim>\<open>_wait_for_confirmation\<close> is awaited and dropped, and the division
  \<^verbatim>\<open>float(quote['inAmount']) / float(quote['outAmount'])\<close> raises when the divisor is
  zero.
\<close>

definition execute_jupiter_swap :: "ChainEnv \<Rightarrow> real \<Rightarrow> real \<Rightarrow> TradeResult" where
  "execute_jupiter_swap env in_amount out_amount =
     (if \<not> has_aiohttp env then failed_trade AiohttpMissing
      else case swap_response env of
             SwapRaised e \<Rightarrow> failed_trade (Raised e)
           | SwapHttpError error_text \<Rightarrow> failed_trade (JupiterSwapFailed error_text)
           | SwapOk \<Rightarrow>
               (case sign_versioned_transaction of
                  Inl e \<Rightarrow> failed_trade (Raised e)
                | Inr signed \<Rightarrow>
                    (case send_result env of
                       SendRaised e \<Rightarrow> failed_trade (Raised e)
                     | Sent None \<Rightarrow> failed_trade SendFailed
                     | Sent (Some sig) \<Rightarrow>
                         let confirmed = wait_for_confirmation env 60
                         in if out_amount = 0
                            then failed_trade (Raised ''float division by zero'')
                            else \<lparr> success = True, transaction_id = Some sig,
                                   price = Some (in_amount / out_amount),
                                   amount_in = Some in_amount, amount_out = Some out_amount,
                                   tokens_received = None, sol_received = None,
                                   error = None \<rparr>)))"

text \<open>\<^verbatim>\<open>_execute_raydium_swap\<close>: the placeholder that simulates a successful trade.\<close>

definition execute_raydium_swap :: "string \<Rightarrow> real \<Rightarrow> bool \<Rightarrow> real \<Rightarrow> real \<Rightarrow> TradeResult" where
  "execute_raydium_swap tx_id amount is_buy q_price q_output =
     (if is_buy then
        \<lparr> success = True, transaction_id = Some tx_id, price = Some q_price,
          amount_in = Some amount, amount_out = None,
          tokens_received = Some q_output, sol_received = None, error = None \<rparr>
      else
        \<lparr> success = True, transaction_id = Some tx_id, price = Some q_price,
          amount_in = Some amount, amount_out = None,
          tokens_received = None, sol_received = Some q_output, error = None \<rparr>)"

text \<open>
  \<^verbatim>\<open>_execute_buy_trade\<close> and \<^verbatim>\<open>_execute_sell_trade\<close>: the quote carries its venue, so
  the branch for an unsupported venue has no value to run on.
\<close>

definition execute_trade :: "ChainEnv \<Rightarrow> string \<Rightarrow> real \<Rightarrow> bool \<Rightarrow> Quote \<Rightarrow> TradeResult" where
  "execute_trade env tx_id amount is_buy q =
     (case q of
        JupiterQuote i out \<Rightarrow> execute_jupiter_swap env i out
      | RaydiumQuote p out \<Rightarrow> execute_raydium_swap tx_id amount is_buy p out)"

subsection \<open>Buying and selling\<close>

text \<open>
  The trader's state: whether \<^verbatim>\<open>client\<close> and \<^verbatim>\<open>wallet\<close> are set, and
  \<^verbatim>\<open>transaction_history\<close>. \<open>swaps_executed\<close> is not a field of the source: it records
  every call of \<^verbatim>\<open>_execute_buy_trade\<close> and \<^verbatim>\<open>_execute_sell_trade\<close>, so that "no swap was
  executed" can be stated.
\<close>

record TransactionLog =
  log_type :: string
  log_token_address :: string
  log_result :: TradeResult

record Trader =
  connected :: bool
  transaction_history :: "TransactionLog list"
  swaps_executed :: "(string \<times> string \<times> real) list"

definition log_transaction :: "string \<Rightarrow> string \<Rightarrow> TradeResult \<Rightarrow> Trader \<Rightarrow> Trader" where
  "log_transaction trade_type addr result t =
     (let h = transaction_history t @
                [\<lparr> log_type = trade_type, log_token_address = addr, log_result = result \<rparr>]
      in t\<lparr> transaction_history := (if length h > 1000 then drop (length h - 1000) h else h) \<rparr>)"

text \<open>
  What the wallet and the venues answer during one \<^verbatim>\<open>buy_token\<close> or \<^verbatim>\<open>sell_token\<close>:
  the quote (\<open>None\<close> when no venue quotes), the balance that \<^verbatim>\<open>_get_sol_balance\<close> or
  \<^verbatim>\<open>_get_token_balance\<close> returns, and the environment of the swap.
\<close>

record TradeEnv =
  quote_answer :: "Quote option"
  balance_answer :: real
  chain :: ChainEnv
  raydium_tx_id :: string

definition buy_token :: "TradeEnv \<Rightarrow> Trader \<Rightarrow> string \<Rightarrow> real \<Rightarrow> real \<Rightarrow> TradeResult \<times> Trader" where
  "buy_token env t addr amount slippage =
     (if \<not> connected t then (failed_trade ClientNotInitialized, t)
      else case quote_answer env of
             None \<Rightarrow> (failed_trade QuoteFailed, t)
           | Some q \<Rightarrow>
               let sol_balance = balance_answer env
               in if sol_balance < amount then (failed_trade (InsufficientSOL sol_balance amount), t)
                  else let trade_result = execute_trade (chain env) (raydium_tx_id env) amount True q;
                           t1 = t\<lparr> swaps_executed := swaps_executed t @ [(''BUY'', addr, amount)] \<rparr>
                       in if success trade_result
                          then (trade_result, log_transaction ''BUY'' addr trade_result t1)
                          else (trade_result, t1))"

definition sell_token :: "TradeEnv \<Rightarrow> Trader \<Rightarrow> string \<Rightarrow> real \<Rightarrow> real \<Rightarrow> TradeResult \<times> Trader" where
  "sell_token env t addr amount slippage =
     (if \<not> connected t then (failed_trade ClientNotInitialized, t)
      else let token_balance = balance_answer env
           in if token_balance < amount then (failed_trade (InsufficientToken token_balance amount), t)
              else case quote_answer env of
                     None \<Rightarrow> (failed_trade QuoteFailed, t)
                   | Some q \<Rightarrow>
                       let trade_result = execute_trade (chain env) (raydium_tx_id env) amount False q;
                           t1 = t\<lparr> swaps_executed := swaps_executed t @ [(''SELL'', addr, amount)] \<rparr>
                       in if success trade_result
                          then (trade_result, log_transaction ''SELL'' addr trade_result t1)
                          else (trade_result, t1))"


section \<open>The bot (solana_memecoin_bot.py)\<close>

text \<open>
  The state of \<^verbatim>\<open>SolanaMemecoinBot\<close> that the pipeline reads and writes. The three
  queues are FIFO lists (\<^verbatim>\<open>put\<close> appends, \<^verbatim>\<open>get\<close> takes the head); the counters are the
  entries of \<^verbatim>\<open>stats\<close>. The notification manager and the database manager catch their
  own exceptions and change nothing the bot reads, so their calls are left out.

  Two fields are not fields of the source. \<open>trading_loops\<close> counts the coroutines
  \<^verbatim>\<open>_process_trading\<close> that \<^verbatim>\<open>start\<close> has created and that have not left their
  \<^verbatim>\<open>while self.running\<close> loop. \<open>buys_in_flight\<close> holds the analyses of those among
  them that are suspended at \<^verbatim>\<open>await self.solana_trader.buy_token(...)\<close>, where the other
  coroutines may run.
\<close>

record Bot =
  running :: bool
  paused :: bool
  solana_trader :: Trader
  discovery_queue :: "TokenDiscovery list"
  analysis_queue :: "TokenDiscovery list"
  trading_queue :: "TokenAnalysis list"
  discovered_tokens :: "(string \<times> TokenDiscovery) list"
  analyzed_tokens :: "(string \<times> TokenAnalysis) list"
  active_positions :: "(string \<times> Position) list"
  tokens_analyzed :: int
  positions_opened :: int
  positions_closed :: int
  total_pnl :: real
  trading_loops :: nat
  buys_in_flight :: "TokenAnalysis list"

text \<open>The state after \<^verbatim>\<open>__init__\<close>, for a trader that is connected or not.\<close>

definition initial_bot :: "bool \<Rightarrow> Bot" where
  "initial_bot conn =
     \<lparr> running = False, paused = False,
       solana_trader = \<lparr> connected = conn, transaction_history = [], swaps_executed = [] \<rparr>,
       discovery_queue = [], analysis_queue = [], trading_queue = [],
       discovered_tokens = [], analyzed_tokens = [], active_positions = [],
       tokens_analyzed = 0, positions_opened = 0, positions_closed = 0, total_pnl = 0,
       trading_loops = 0, buys_in_flight = [] \<rparr>"

definition pause :: "Bot \<Rightarrow> Bot" where
  "pause b = b\<lparr> paused := True \<rparr>"

definition resume :: "Bot \<Rightarrow> Bot" where
  "resume b = b\<lparr> paused := False \<rparr>"

text \<open>
  The end of \<^verbatim>\<open>_process_social_message\<close>, for a message in which a token is found: the
  discovery is put on the discovery queue.
\<close>

definition put_discovery :: "TokenDiscovery \<Rightarrow> Bot \<Rightarrow> Bot" where
  "put_discovery d b = b\<lparr> discovery_queue := discovery_queue b @ [d] \<rparr>"

subsection \<open>Discovery: deduplication\<close>

text \<open>
  The test of \<^verbatim>\<open>_process_discoveries\<close> that skips a discovery:
  the address is in \<^verbatim>\<open>discovered_tokens\<close> and
  \<^verbatim>\<open>(datetime.now() - last_discovery.timestamp).seconds < 3600\<close>.
\<close>

definition recently_discovered :: "datetime \<Rightarrow> Bot \<Rightarrow> TokenDiscovery \<Rightarrow> bool" where
  "recently_discovered now b d =
     (case map_of (discovered_tokens b) (contract_address d) of
        None \<Rightarrow> False
      | Some last_discovery \<Rightarrow> td_seconds (now - timestamp last_discovery) < 3600)"

text \<open>One iteration of the loop of \<^verbatim>\<open>_process_discoveries\<close>.\<close>

definition process_discoveries_step :: "datetime \<Rightarrow> Bot \<Rightarrow> Bot" where
  "process_discoveries_step now b =
     (case discovery_queue b of
        [] \<Rightarrow> b
      | d # rest \<Rightarrow>
          let b1 = b\<lparr> discovery_queue := rest \<rparr>
          in if recently_discovered now b1 d then b1
             else b1\<lparr> discovered_tokens := AList.update (contract_address d) d (discovered_tokens b1),
                      analysis_queue := analysis_queue b1 @ [d] \<rparr>)"

subsection \<open>Analysis\<close>

text \<open>
  \<^verbatim>\<open>TokenAnalyzer.get_safety_score\<close>. A 200 answer hands back
  \<^verbatim>\<open>data.get('score', 0)\<close>: 0 when the key is absent, \<^verbatim>\<open>None\<close> when the answer carries
  \<^verbatim>\<open>"score": null\<close>, the number otherwise. Every other status and every exception give 0.
  The result is \<open>None\<close> for Python's \<^verbatim>\<open>None\<close>. An answer from the cache is the value of
  an earlier call.
\<close>

datatype JsonScore = ScoreAbsent | ScoreNull | ScoreNumber int

datatype SnifferResponse = SnifferStatus int JsonScore | SnifferRaised string

definition get_safety_score :: "SnifferResponse \<Rightarrow> int option" where
  "get_safety_score r =
     (case r of
        SnifferRaised e \<Rightarrow> Some 0
      | SnifferStatus code score \<Rightarrow>
          if code = 200 then
            (case score of ScoreAbsent \<Rightarrow> Some 0 | ScoreNull \<Rightarrow> None | ScoreNumber n \<Rightarrow> Some n)
          else if code = 404 then Some 0
          else Some 0)"

text \<open>
  \<^verbatim>\<open>TokenAnalyzer.get_market_data\<close>. It merges the answers of three sources and adds
  derived metrics. Each source catches its own failures: \<^verbatim>\<open>_get_gmgn_data\<close> and
  \<^verbatim>\<open>_get_birdeye_data\<close> then return \<^verbatim>\<open>{}\<close>, \<^verbatim>\<open>_get_pumpfun_data\<close> a dictionary without market
  keys; \<open>None\<close> is such a failed fetch. Of a source's answer the fields kept are the
  numbers that the derived metrics read. \<open>clock\<close> is \<^verbatim>\<open>time.time()\<close>, in seconds. The
  numbers are typed, so the handlers of \<^verbatim>\<open>_calculate_derived_metrics\<close> and of
  \<^verbatim>\<open>get_market_data\<close> have nothing to catch. An answer from the cache is the value of an
  earlier call.
\<close>

record GmgnToken =
  gmgn_market_cap :: real
  gmgn_volume_24h :: real
  gmgn_liquidity :: real
  gmgn_holder_count :: real
  gmgn_creation_timestamp :: real

record PumpfunCoin =
  pumpfun_market_cap :: real
  pumpfun_created_timestamp :: real

record BirdeyeToken =
  birdeye_market_cap :: real
  birdeye_volume_24h :: real
  birdeye_liquidity :: real

record MarketEnv =
  gmgn_answer :: "GmgnToken option"
  pumpfun_answer :: "PumpfunCoin option"
  birdeye_answer :: "BirdeyeToken option"
  clock :: real

text \<open>Python's \<^verbatim>\<open>a or b\<close> on numbers that may be missing: \<open>a\<close> when it is there and not zero.\<close>

definition py_or :: "real option \<Rightarrow> real \<Rightarrow> real" where
  "py_or a b = (case a of None \<Rightarrow> b | Some x \<Rightarrow> if x \<noteq> 0 then x else b)"

definition get_market_data :: "MarketEnv \<Rightarrow> MarketData" where
  "get_market_data env =
     (let g = gmgn_answer env; pf = pumpfun_answer env; be = birdeye_answer env;
          mc = py_or (map_option gmgn_market_cap g)
                 (py_or (map_option birdeye_market_cap be)
                    (py_get (map_option pumpfun_market_cap pf) 0));
          vol = py_or (map_option gmgn_volume_24h g)
                  (py_get (map_option birdeye_volume_24h be) 0);
          liq = py_or (map_option gmgn_liquidity g)
                  (py_get (map_option birdeye_liquidity be) 0);
          creation = py_or (map_option gmgn_creation_timestamp g)
                       (py_get (map_option pumpfun_created_timestamp pf) 0);
          age = (if creation \<noteq> 0 then (clock env - creation) / 3600 else 24);
          vol_ratio = (if mc > 0 then vol / mc else 0);
          liq_ratio = (if mc > 0 then liq / mc else 0);
          holders = py_get (map_option gmgn_holder_count g) 0;
          distribution =
            (if holders > 0 then
               (if holders > 1000 then 1
                else if holders > 100 then 8 / 10
                else if holders > 10 then 6 / 10
                else 3 / 10)
             else 0)
      in \<lparr> market_cap = map_option gmgn_market_cap g,
           liquidity = map_option gmgn_liquidity g,
           volume_24h = map_option gmgn_volume_24h g,
           age_hours = Some age,
           holder_count = map_option gmgn_holder_count g,
           liquidity_locked = Some (liq_ratio > 1 / 10),
           mint_disabled = Some (age > 1),
           volume_mc_ratio = Some vol_ratio,
           liquidity_mc_ratio = Some liq_ratio,
           distribution_score = Some distribution \<rparr>)"

text \<open>
  \<^verbatim>\<open>AIPredictor.predict_success\<close>. Every step catches its own exceptions, so the
  outermost handler (probability 0.5, confidence 0.1) has nothing to catch and is left
  out. A score that fails is 0.5: \<^verbatim>\<open>_predict_with_ml\<close>, \<^verbatim>\<open>_predict_with_dl\<close> and
  \<^verbatim>\<open>_analyze_sentiment\<close> return it from their handlers (and the last also without an
  analyzer). The two model scores are in \<^verbatim>\<open>predictions\<close> only when the model is loaded:
  \<open>None\<close> is a model that is not. \<open>hype_clock\<close> is \<^verbatim>\<open>datetime.now()\<close> when the hype score
  is computed. The confidence is the mean that \<^verbatim>\<open>_calculate_confidence\<close> takes over the
  features; the bot never reads it, and it is a parameter here.
\<close>

datatype 'a Upstream = Failed string | Answered 'a

definition score_or_half :: "real Upstream \<Rightarrow> real" where
  "score_or_half r = (case r of Failed e \<Rightarrow> 5 / 10 | Answered v \<Rightarrow> v)"

record PredictorEnv =
  ml_answer :: "real Upstream option"
  dl_answer :: "real Upstream option"
  sentiment_answer :: "real Upstream"
  hype_clock :: datetime
  confidence_answer :: real

text \<open>\<^verbatim>\<open>_analyze_technical_indicators\<close>: four factors, averaged.\<close>

definition analyze_technical_indicators :: "MarketData \<Rightarrow> real" where
  "analyze_technical_indicators md =
     (let vol_ratio = py_get (volume_mc_ratio md) 0;
          s1 = (if vol_ratio > 1 / 10 then 8 / 10
                else if vol_ratio > 5 / 100 then 6 / 10
                else if vol_ratio > 1 / 100 then 4 / 10
                else 2 / 10);
          liq_ratio = py_get (liquidity_mc_ratio md) 0;
          s2 = (if liq_ratio > 2 / 10 then 9 / 10
                else if liq_ratio > 1 / 10 then 7 / 10
                else if liq_ratio > 5 / 100 then 5 / 10
                else 2 / 10);
          age = py_get (age_hours md) 24;
          s3 = (if age < 6 then 7 / 10
                else if age < 24 then 8 / 10
                else if age < 72 then 6 / 10
                else 4 / 10);
          s4 = py_get (distribution_score md) 0
      in (0 + s1 + s2 + s3 + s4) / 4)"

text \<open>\<^verbatim>\<open>_calculate_social_hype\<close>, at the instant \<open>now\<close> of its clock.\<close>

definition source_weight :: "string \<Rightarrow> real" where
  "source_weight src =
     (if src = ''twitter'' then 3 / 10
      else if src = ''reddit'' then 25 / 100
      else if src = ''telegram'' then 2 / 10
      else if src = ''discord'' then 15 / 100
      else if src = ''tiktok'' then 1 / 10
      else 1 / 10)"

definition calculate_social_hype :: "datetime \<Rightarrow> TokenDiscovery \<Rightarrow> real" where
  "calculate_social_hype now discovery =
     (let time_diff = total_seconds (now - timestamp discovery);
          time_factor = max 0 (1 - time_diff / 3600);
          hype = 0 + confidence_score discovery * (4 / 10) + source_weight (source discovery)
                   + time_factor * (3 / 10)
      in min 1 hype)"

text \<open>
  \<^verbatim>\<open>_ensemble_predictions\<close>: the weighted mean of the scores that are in
  \<^verbatim>\<open>predictions\<close>, with the weights 0.25, 0.25, 0.2, 0.2 and 0.1.
\<close>

definition ensemble_predictions ::
  "real option \<Rightarrow> real option \<Rightarrow> real \<Rightarrow> real \<Rightarrow> real \<Rightarrow> real" where
  "ensemble_predictions ml dl sentiment technical hype =
     (let weighted_sum =
            (case ml of None \<Rightarrow> 0 | Some v \<Rightarrow> v * (25 / 100))
          + (case dl of None \<Rightarrow> 0 | Some v \<Rightarrow> v * (25 / 100))
          + sentiment * (2 / 10) + technical * (2 / 10) + hype * (1 / 10);
          total_weight =
            (case ml of None \<Rightarrow> 0 | Some v \<Rightarrow> 25 / 100)
          + (case dl of None \<Rightarrow> 0 | Some v \<Rightarrow> 25 / 100)
          + 2 / 10 + 2 / 10 + 1 / 10
      in if total_weight > 0 then weighted_sum / total_weight else 5 / 10)"

definition predict_success ::
  "PredictorEnv \<Rightarrow> TokenDiscovery \<Rightarrow> MarketData \<Rightarrow> AIPrediction" where
  "predict_success env discovery md =
     \<lparr> success_probability =
         Some (ensemble_predictions
                 (map_option score_or_half (ml_answer env))
                 (map_option score_or_half (dl_answer env))
                 (score_or_half (sentiment_answer env))
                 (analyze_technical_indicators md)
                 (calculate_social_hype (hype_clock env) discovery)),
       confidence = Some (confidence_answer env),
       prediction_error = None \<rparr>"

record AnalysisEnv =
  sniffer_answer :: SnifferResponse
  market_env :: MarketEnv
  predictor_env :: PredictorEnv

text \<open>
  \<^verbatim>\<open>_analyze_token\<close>. A safety score of \<^verbatim>\<open>None\<close> raises in the comparison with
  \<^verbatim>\<open>min_safety_score\<close>, and the handler returns \<^verbatim>\<open>None\<close>: no analysis.
\<close>

definition analyze_token ::
  "FilterConfig \<Rightarrow> datetime \<Rightarrow> AnalysisEnv \<Rightarrow> TokenDiscovery \<Rightarrow> TokenAnalysis option" where
  "analyze_token fc now env discovery =
     (case get_safety_score (sniffer_answer env) of
        None \<Rightarrow> None
      | Some score \<Rightarrow>
          if score < min_safety_score fc then
            Some \<lparr> token_discovery = discovery, safety_score = score,
                   market_data = empty_market_data, ai_prediction = empty_ai_prediction,
                   filter_passed = False, analysis_timestamp = now, recommendation = PASS \<rparr>
          else let md = get_market_data (market_env env)
               in if \<not> check_market_filters fc md then
                    Some \<lparr> token_discovery = discovery, safety_score = score,
                           market_data = md, ai_prediction = empty_ai_prediction,
                           filter_passed = False, analysis_timestamp = now,
                           recommendation = PASS \<rparr>
                  else let ai = predict_success (predictor_env env) discovery md;
                           rec = get_recommendation fc score md ai
                       in Some \<lparr> token_discovery = discovery, safety_score = score,
                                  market_data = md, ai_prediction = ai,
                                  filter_passed = (rec \<in> {BUY, MONITOR}),
                                  analysis_timestamp = now, recommendation = rec \<rparr>)"

text \<open>One iteration of the loop of \<^verbatim>\<open>_process_analysis\<close>.\<close>

definition process_analysis_step :: "FilterConfig \<Rightarrow> datetime \<Rightarrow> AnalysisEnv \<Rightarrow> Bot \<Rightarrow> Bot" where
  "process_analysis_step fc now env b =
     (case analysis_queue b of
        [] \<Rightarrow> b
      | discovery # rest \<Rightarrow>
          let b1 = b\<lparr> analysis_queue := rest \<rparr>
          in if confidence_score discovery < 4 / 10 then b1
             else case analyze_token fc now env discovery of
                    None \<Rightarrow> b1
                  | Some analysis \<Rightarrow>
                      let b2 = b1\<lparr> analyzed_tokens :=
                                     AList.update (contract_address discovery) analysis
                                       (analyzed_tokens b1),
                                   tokens_analyzed := tokens_analyzed b1 + 1 \<rparr>
                      in if filter_passed analysis \<and> recommendation analysis = BUY
                         then b2\<lparr> trading_queue := trading_queue b2 @ [analysis] \<rparr>
                         else b2)"


subsection \<open>Trading\<close>

text \<open>
  \<^verbatim>\<open>_execute_buy_order\<close> from the answer of \<^verbatim>\<open>buy_token\<close> on. A successful result
  without a price raises at \<^verbatim>\<open>result['price'] * ...\<close>, before the position is stored; a
  successful result without \<^verbatim>\<open>tokens_received\<close> raises in the format of the
  notification, after the position is stored. Both are caught and return \<^verbatim>\<open>False\<close>.
\<close>

definition execute_buy_order_complete ::
  "TradingConfig \<Rightarrow> datetime \<Rightarrow> TradeEnv \<Rightarrow> TokenAnalysis \<Rightarrow> Bot \<Rightarrow> bool \<times> Bot" where
  "execute_buy_order_complete tc now env analysis b =
     (let addr = contract_address (token_discovery analysis);
          sym = symbol (token_discovery analysis);
          buy_amount = min (buy_amount_sol tc) (max_buy_amount_sol tc);
          (result, t1) = buy_token env (solana_trader b) addr buy_amount (buy_slippage tc);
          b1 = b\<lparr> solana_trader := t1 \<rparr>
      in if success result then
           (case price result of
              None \<Rightarrow> (False, b1)
            | Some p \<Rightarrow>
                let position =
                      \<lparr> token_address = addr, position_symbol = sym, entry_price = p,
                        current_price = p, amount_sol = buy_amount,
                        tokens_held = tokens_received result, entry_timestamp = now,
                        status = OPEN, pnl_percent = 0,
                        stop_loss_price = p * (1 - stop_loss_percentage tc),
                        take_profit_price = p * take_profit_multiplier tc \<rparr>;
                    b2 = b1\<lparr> active_positions := AList.update addr position (active_positions b1),
                             positions_opened := positions_opened b1 + 1 \<rparr>
                in (tokens_received result \<noteq> None, b2))
         else (False, b1))"

text \<open>\<^verbatim>\<open>_execute_buy_order\<close> as a whole.\<close>

definition execute_buy_order ::
  "TradingConfig \<Rightarrow> datetime \<Rightarrow> TradeEnv \<Rightarrow> TokenAnalysis \<Rightarrow> Bot \<Rightarrow> bool \<times> Bot" where
  "execute_buy_order tc now env analysis b =
     (if contract_address (token_discovery analysis) \<in> fst ` set (active_positions b)
      then (False, b)
      else execute_buy_order_complete tc now env analysis b)"

text \<open>
  One iteration of the loop of \<^verbatim>\<open>_process_trading\<close>, in the two parts that the
  \<^verbatim>\<open>await\<close> on \<^verbatim>\<open>buy_token\<close> separates: up to the call, and from its answer on. The
  second part is that of the coroutine whose analysis is the \<open>i\<close>-th in flight.
\<close>

definition process_trading_begin :: "TradingConfig \<Rightarrow> Bot \<Rightarrow> Bot" where
  "process_trading_begin tc b =
     (if paused b then b
      else case trading_queue b of
             [] \<Rightarrow> b
           | analysis # rest \<Rightarrow>
               let b1 = b\<lparr> trading_queue := rest \<rparr>
               in if int (length (active_positions b1)) \<ge> max_positions tc then b1
                  else if contract_address (token_discovery analysis)
                            \<in> fst ` set (active_positions b1) then b1
                  else b1\<lparr> buys_in_flight := buys_in_flight b1 @ [analysis] \<rparr>)"

definition process_trading_complete ::
  "TradingConfig \<Rightarrow> datetime \<Rightarrow> TradeEnv \<Rightarrow> nat \<Rightarrow> Bot \<Rightarrow> Bot" where
  "process_trading_complete tc now env i b =
     (if i < length (buys_in_flight b)
      then snd (execute_buy_order_complete tc now env (buys_in_flight b ! i)
                  (b\<lparr> buys_in_flight := take i (buys_in_flight b) @ drop (Suc i) (buys_in_flight b) \<rparr>))
      else b)"

subsection \<open>Monitoring and exits\<close>

datatype ExitReason = TAKE_PROFIT | STOP_LOSS | TIME_LIMIT | NO_REASON

text \<open>\<^verbatim>\<open>_check_exit_conditions\<close>; \<open>NO_REASON\<close> is the empty string.\<close>

definition check_exit_conditions :: "datetime \<Rightarrow> Position \<Rightarrow> bool \<times> ExitReason" where
  "check_exit_conditions now position =
     (if current_price position \<ge> take_profit_price position then (True, TAKE_PROFIT)
      else if current_price position \<le> stop_loss_price position then (True, STOP_LOSS)
      else let hours_held = total_seconds (now - entry_timestamp position) / 3600
           in if hours_held \<ge> 24 then (True, TIME_LIMIT)
              else (False, NO_REASON))"

text \<open>
  Whether the double \<^verbatim>\<open>1.0 - m\<close> is the double \<^verbatim>\<open>1.0\<close>. The doubles next to 1 are
  \<open>1 - 2\<^sup>-\<^sup>5\<^sup>3\<close> and \<open>1 + 2\<^sup>-\<^sup>5\<^sup>2\<close>, and the subtraction rounds to the nearest
  double, a tie going to 1 (whose last bit is even): the result is 1 exactly when
  \<open>-2\<^sup>-\<^sup>5\<^sup>3 \<le> m \<le> 2\<^sup>-\<^sup>5\<^sup>4\<close>.
\<close>

definition rounds_to_one :: "real \<Rightarrow> bool" where
  "rounds_to_one m = (- (1 / 2 ^ 53) \<le> m \<and> m \<le> 1 / 2 ^ 54)"

text \<open>
  The local \<^verbatim>\<open>sell_percentage\<close> of \<^verbatim>\<open>_execute_sell_order\<close>. The source tests it with
  \<^verbatim>\<open>sell_percentage == 1.0\<close>, so the one rounding that decides the test is kept: the
  difference is 1 where the double is, and exact elsewhere.
\<close>

definition sell_percentage :: "TradingConfig \<Rightarrow> ExitReason \<Rightarrow> real" where
  "sell_percentage tc exit_reason =
     (if exit_reason = TAKE_PROFIT
      then (if rounds_to_one (moonbag_percentage tc) then 1 else 1 - moonbag_percentage tc)
      else 1)"

text \<open>
  Assigning to the fields of the position object that \<^verbatim>\<open>active_positions\<close> holds under
  the key \<open>k\<close>: the entry of \<open>k\<close> is replaced, and nothing is added when the
  dictionary holds no such key.
\<close>

definition store_object :: "string \<Rightarrow> Position \<Rightarrow> (string \<times> Position) list \<Rightarrow> (string \<times> Position) list" where
  "store_object k p al = (if k \<in> fst ` set al then AList.update k p al else al)"

text \<open>
  \<^verbatim>\<open>_execute_sell_order\<close> on the position object stored under the key \<open>k\<close>. The
  result is the position object after the call, and the bot. Every exception is caught
  and logged: \<^verbatim>\<open>None\<close> in \<^verbatim>\<open>tokens_held\<close> or in \<^verbatim>\<open>result['sol_received']\<close> and a zero
  divisor of \<^verbatim>\<open>pnl_percent\<close> raise before the position is touched; \<^verbatim>\<open>del\<close> of a
  missing key raises after the status is set.
\<close>

definition execute_sell_order ::
  "TradingConfig \<Rightarrow> TradeEnv \<Rightarrow> string \<Rightarrow> Position \<Rightarrow> ExitReason \<Rightarrow> Bot \<Rightarrow> Position \<times> Bot" where
  "execute_sell_order tc env k position exit_reason b =
     (let pct = sell_percentage tc exit_reason
      in case tokens_held position of
           None \<Rightarrow> (position, b)
         | Some held \<Rightarrow>
             let tokens_to_sell = held * pct;
                 (result, t1) = sell_token env (solana_trader b) (token_address position)
                                  tokens_to_sell (sell_slippage tc);
                 b1 = b\<lparr> solana_trader := t1 \<rparr>
             in if success result then
                  (case sol_received result of
                     None \<Rightarrow> (position, b1)
                   | Some received \<Rightarrow>
                       let pnl_sol = received - amount_sol position * pct
                       in if amount_sol position * pct = 0 then (position, b1)
                          else if pct = 1 then
                            let closed = position\<lparr> status := CLOSED \<rparr>;
                                b2 = b1\<lparr> active_positions :=
                                           store_object k closed (active_positions b1) \<rparr>
                            in if token_address position \<in> fst ` set (active_positions b2)
                               then (closed,
                                     b2\<lparr> active_positions :=
                                          AList.delete (token_address position) (active_positions b2),
                                        positions_closed := positions_closed b2 + 1,
                                        total_pnl := total_pnl b2 + pnl_sol \<rparr>)
                               else (closed, b2)
                          else
                            let kept = position\<lparr> status := PARTIAL_CLOSE,
                                                  tokens_held := Some (held * moonbag_percentage tc),
                                                  amount_sol := amount_sol position * moonbag_percentage tc \<rparr>
                            in (kept,
                                b1\<lparr> active_positions := store_object k kept (active_positions b1),
                                    positions_closed := positions_closed b1 + 1,
                                    total_pnl := total_pnl b1 + pnl_sol \<rparr>))
                else (position, b1))"

text \<open>
  What the venues answer during one monitor tick, per token address: the price of
  \<^verbatim>\<open>get_token_price\<close> (\<open>None\<close> when no price is found) and the environment of a sell.
\<close>

record MonitorEnv =
  price_answer :: "string \<Rightarrow> real option"
  sell_env :: "string \<Rightarrow> TradeEnv"

text \<open>
  The end of the body of the \<^verbatim>\<open>for\<close> loop of \<^verbatim>\<open>_monitor_positions\<close>: the exit check
  and, when it says so, the sell.
\<close>

definition monitor_exit ::
  "TradingConfig \<Rightarrow> datetime \<Rightarrow> MonitorEnv \<Rightarrow> string \<Rightarrow> Position \<Rightarrow> Bot \<Rightarrow> Bot" where
  "monitor_exit tc now env k position b =
     (let (should_exit, exit_reason) = check_exit_conditions now position
      in if should_exit
         then snd (execute_sell_order tc (sell_env env k) k position exit_reason b)
         else b)"

text \<open>
  The body of the \<^verbatim>\<open>for\<close> loop of \<^verbatim>\<open>_monitor_positions\<close> for one item of the snapshot.
  \<^verbatim>\<open>if current_price:\<close> holds for a price that is neither \<^verbatim>\<open>None\<close> nor zero. The
  boolean says that the body raised (the division of \<^verbatim>\<open>pnl_percent\<close> by an entry price
  of zero), which leaves the loop for the handler of the tick; the price assigned before
  the division stays.
\<close>

definition monitor_position ::
  "TradingConfig \<Rightarrow> datetime \<Rightarrow> MonitorEnv \<Rightarrow> string \<times> Position \<Rightarrow> Bot \<Rightarrow> bool \<times> Bot" where
  "monitor_position tc now env item b =
     (let k = fst item; position = snd item
      in if status position \<noteq> OPEN then (False, b)
         else case price_answer env k of
                None \<Rightarrow> (False, monitor_exit tc now env k position b)
              | Some fetched \<Rightarrow>
                  if fetched = 0 then (False, monitor_exit tc now env k position b)
                  else
                    let p1 = position\<lparr> current_price := fetched \<rparr>;
                        b1 = b\<lparr> active_positions := store_object k p1 (active_positions b) \<rparr>
                    in if entry_price position = 0 then (True, b1)
                       else
                         let p2 = p1\<lparr> pnl_percent :=
                                        ((fetched - entry_price position) / entry_price position) * 100 \<rparr>;
                             b2 = b1\<lparr> active_positions := store_object k p2 (active_positions b1) \<rparr>
                         in (False, monitor_exit tc now env k p2 b2))"

fun monitor_loop ::
  "TradingConfig \<Rightarrow> datetime \<Rightarrow> MonitorEnv \<Rightarrow> (string \<times> Position) list \<Rightarrow> Bot \<Rightarrow> Bot" where
  "monitor_loop tc now env [] b = b"
| "monitor_loop tc now env (item # items) b =
     (let (raised, b1) = monitor_position tc now env item b
      in if raised then b1 else monitor_loop tc now env items b1)"

text \<open>One iteration of the loop of \<^verbatim>\<open>_monitor_positions\<close>: a tick.\<close>

definition monitor_positions_tick :: "TradingConfig \<Rightarrow> datetime \<Rightarrow> MonitorEnv \<Rightarrow> Bot \<Rightarrow> Bot" where
  "monitor_positions_tick tc now env b =
     (if paused b then b else monitor_loop tc now env (active_positions b) b)"


subsection \<open>Start and stop\<close>

text \<open>
  \<^verbatim>\<open>_load_existing_positions\<close>, called by \<^verbatim>\<open>start\<close> before the loops run, with the rows
  that \<^verbatim>\<open>DatabaseManager.get_open_positions\<close> returns. In
  \<^verbatim>\<open>src/bot_code/utils/database.py\<close> a row is a dictionary, not a \<^verbatim>\<open>Position\<close>: reading
  \<^verbatim>\<open>position.token_address\<close> of the first row raises, the handler logs the error, and
  the ledger stays as it was. With no row the loop does nothing.
\<close>

type_synonym PositionRow = "(string \<times> string) list"

definition load_existing_positions :: "PositionRow list \<Rightarrow> Bot \<Rightarrow> Bot" where
  "load_existing_positions rows b = (case rows of [] \<Rightarrow> b | row # rest \<Rightarrow> b)"

text \<open>
  \<^verbatim>\<open>start\<close>, for a configuration that validates: it sets \<^verbatim>\<open>running\<close>, loads the
  positions and gathers the loops, among them one \<^verbatim>\<open>_process_trading\<close>. It does not
  look at \<^verbatim>\<open>running\<close>, nor at the loops of an earlier call. \<^verbatim>\<open>stop\<close> sets
  \<^verbatim>\<open>running = False\<close> and cancels nothing: a loop ends when it next evaluates
  \<^verbatim>\<open>while self.running\<close>.
\<close>

definition start :: "PositionRow list \<Rightarrow> Bot \<Rightarrow> Bot" where
  "start rows b =
     (load_existing_positions rows (b\<lparr> running := True \<rparr>))\<lparr> trading_loops := trading_loops b + 1 \<rparr>"

definition stop :: "Bot \<Rightarrow> Bot" where
  "stop b = b\<lparr> running := False \<rparr>"

text \<open>A \<^verbatim>\<open>_process_trading\<close> coroutine leaves its loop.\<close>

definition trading_loop_exit :: "Bot \<Rightarrow> Bot" where
  "trading_loop_exit b = b\<lparr> trading_loops := trading_loops b - 1 \<rparr>"

subsection \<open>The states the pipeline reaches\<close>

text \<open>
  The bot begins in the state that \<^verbatim>\<open>__init__\<close> leaves. \<^verbatim>\<open>start\<close> is called by
  \<^verbatim>\<open>main.py\<close> and by the \<^verbatim>\<open>start\<close> action of the web interface
  (\<^verbatim>\<open>api_control\<close>, on a thread and an event loop of its own), which tests
  \<^verbatim>\<open>not self.bot.running\<close> first; \<^verbatim>\<open>stop\<close> is called by the \<^verbatim>\<open>stop\<close> action and by the
  signal handler. The coroutines give way to each other at an \<^verbatim>\<open>await\<close>. A step is the
  run of one coroutine between two such points: a collector queues a discovery; the
  discovery loop, the analysis loop or the monitor, having found \<^verbatim>\<open>running\<close> set, runs
  one iteration; a trading loop that is not suspended in a buy evaluates
  \<^verbatim>\<open>while self.running\<close> and leaves, or runs up to its \<^verbatim>\<open>await\<close> on \<^verbatim>\<open>buy_token\<close>; a
  trading loop suspended there runs on from the answer; the monitor handles one
  position of the ledger; the operator pauses or resumes. The environment's answers
  are arbitrary.
\<close>

inductive reachable :: "TradingConfig \<Rightarrow> FilterConfig \<Rightarrow> Bot \<Rightarrow> bool"
  for tc :: TradingConfig and fc :: FilterConfig where
  r_init: "reachable tc fc (initial_bot conn)"
| r_start: "reachable tc fc b \<Longrightarrow> \<not> running b \<Longrightarrow> reachable tc fc (start rows b)"
| r_stop: "reachable tc fc b \<Longrightarrow> reachable tc fc (stop b)"
| r_collect: "reachable tc fc b \<Longrightarrow> reachable tc fc (put_discovery d b)"
| r_discoveries: "reachable tc fc b \<Longrightarrow> running b \<Longrightarrow>
     reachable tc fc (process_discoveries_step now b)"
| r_analysis: "reachable tc fc b \<Longrightarrow> running b \<Longrightarrow>
     reachable tc fc (process_analysis_step fc now aenv b)"
| r_trading_exit: "reachable tc fc b \<Longrightarrow> \<not> running b \<Longrightarrow>
     length (buys_in_flight b) < trading_loops b \<Longrightarrow>
     reachable tc fc (trading_loop_exit b)"
| r_trading_begin: "reachable tc fc b \<Longrightarrow> running b \<Longrightarrow>
     length (buys_in_flight b) < trading_loops b \<Longrightarrow>
     reachable tc fc (process_trading_begin tc b)"
| r_trading_complete: "reachable tc fc b \<Longrightarrow>
     reachable tc fc (process_trading_complete tc now tenv i b)"
| r_monitor_position: "reachable tc fc b \<Longrightarrow> \<not> paused b \<Longrightarrow> item \<in> set (active_positions b) \<Longrightarrow>
     reachable tc fc (snd (monitor_position tc now menv item b))"
| r_monitor_tick: "reachable tc fc b \<Longrightarrow> running b \<Longrightarrow>
     reachable tc fc (monitor_positions_tick tc now menv b)"
| r_pause: "reachable tc fc b \<Longrightarrow> reachable tc fc (pause b)"
| r_resume: "reachable tc fc b \<Longrightarrow> reachable tc fc (resume b)"

text \<open>
  The positions of the ledger that are live (\<^verbatim>\<open>OPEN\<close> or \<^verbatim>\<open>PARTIAL_CLOSE\<close>) for a token
  address.
\<close>

definition live_positions :: "Bot \<Rightarrow> string \<Rightarrow> Position list" where
  "live_positions b a =
     filter (\<lambda>p. token_address p = a \<and> status p \<in> {OPEN, PARTIAL_CLOSE})
       (map snd (active_positions b))"

text \<open>
  The invariant of the entries of the ledger: the keys are distinct (it is a
  dictionary), and every position is stored under its own address.
\<close>

definition entries_ok :: "(string \<times> Position) list \<Rightarrow> bool" where
  "entries_ok al =
     (distinct (map fst al) \<and> list_all (\<lambda>item. token_address (snd item) = fst item) al)"

section \<open>Concrete inputs\<close>

text \<open>
  The scenario of the specification: a token that passes every market filter of the
  default configuration and has market score 0.8 (full volume and liquidity terms, a
  token created just now, no holders counted), with AI probability 0.9.
\<close>

definition scenario_market :: MarketData where
  "scenario_market =
     \<lparr> market_cap = Some 50000, liquidity = Some 50000, volume_24h = Some 10000,
       age_hours = Some 0, holder_count = Some 0, liquidity_locked = Some True,
       mint_disabled = Some True, volume_mc_ratio = Some (2 / 10),
       liquidity_mc_ratio = Some 1, distribution_score = Some 0 \<rparr>"

definition scenario_ai :: AIPrediction where
  "scenario_ai =
     \<lparr> success_probability = Some (9 / 10), confidence = Some 1, prediction_error = None \<rparr>"

text \<open>
  A signal for one token address, mentioned at the instant \<open>t\<close>, and the bot after the
  discovery loop admitted the signal of instant 0.
\<close>

definition token_a :: string where
  "token_a = ''AAAAAAAAAAAAAAAAAAAAAAAAAAAAAAAA''"

definition signal_a :: "datetime \<Rightarrow> TokenDiscovery" where
  "signal_a t =
     \<lparr> symbol = ''AAA'', contract_address = token_a, source = ''twitter'', timestamp = t,
       original_message = ''$AAA'', author = ''someone'', platform_url = [],
       confidence_score = 6 / 10 \<rparr>"

definition admitted_a :: Bot where
  "admitted_a = process_discoveries_step 0 ((initial_bot True)\<lparr> discovery_queue := [signal_a 0] \<rparr>)"


text \<open>
  A chain on which a transaction is never confirmed (every poll answers
  \<^verbatim>\<open>status.value = None\<close>), and one on which the third poll finds it confirmed. The
  transaction id is a signature in base 58.
\<close>

definition never_confirmed :: ChainEnv where
  "never_confirmed =
     \<lparr> has_aiohttp = True, swap_response = SwapOk,
       send_result = Sent (Some
         ''5VERv8NMvzbJMEkV8xnrLkEaWRtSz9CosKDYjCJjBRnbJLgp8uirBgmQpjKhoR4tjF3ZpRzrFmBV6UjKdiSZkQUW''),
       signature_valid = True, poll_answers = (\<lambda>i. PollValue None),
       poll_delays = (\<lambda>i. 0) \<rparr>"



text \<open>
  A connected trader whose wallet holds 0.5 (SOL or tokens), asked to trade 1.5: once
  when no venue quotes, once with a Raydium quote.
\<close>

definition connected_trader :: Trader where
  "connected_trader = \<lparr> connected = True, transaction_history = [], swaps_executed = [] \<rparr>"

definition poor_wallet_no_quote :: TradeEnv where
  "poor_wallet_no_quote =
     \<lparr> quote_answer = None, balance_answer = 1 / 2, chain = never_confirmed,
       raydium_tx_id = ''raydium_buy_1700000000'' \<rparr>"

definition poor_wallet_quoted :: TradeEnv where
  "poor_wallet_quoted =
     \<lparr> quote_answer = Some (RaydiumQuote (1 / 1000) 1500), balance_answer = 1 / 2,
       chain = never_confirmed, raydium_tx_id = ''raydium_buy_1700000000'' \<rparr>"


text \<open>
  A BUY analysis of the token, a wallet with ample balance whose venue (Raydium) quotes
  a price and an output, the position that a buy at price 100 creates under the default
  configuration, a bot that holds that position at a given current price, and the
  default configuration with the moonbag set to zero.
\<close>

definition analysis_a :: TokenAnalysis where
  "analysis_a =
     \<lparr> token_discovery = signal_a 0, safety_score = 90, market_data = scenario_market,
       ai_prediction = scenario_ai, filter_passed = True, analysis_timestamp = 0,
       recommendation = BUY \<rparr>"

definition rich_wallet :: "real \<Rightarrow> real \<Rightarrow> TradeEnv" where
  "rich_wallet quoted_price quoted_output =
     \<lparr> quote_answer = Some (RaydiumQuote quoted_price quoted_output), balance_answer = 1000000,
       chain = never_confirmed, raydium_tx_id = ''raydium_1700000000'' \<rparr>"

definition position_a :: Position where
  "position_a =
     \<lparr> token_address = token_a, position_symbol = ''AAA'', entry_price = 100,
       current_price = 100, amount_sol = 3 / 2, tokens_held = Some (15 / 1000),
       entry_timestamp = 0, status = OPEN, pnl_percent = 0, stop_loss_price = 50,
       take_profit_price = 1000 \<rparr>"

definition holding_a :: "real \<Rightarrow> Bot" where
  "holding_a cp = (initial_bot True)\<lparr> active_positions := [(token_a, position_a\<lparr> current_price := cp \<rparr>)] \<rparr>"


text \<open>
  The answers of the upstream services during one assessment. GMGN knows the token:
  market cap 50000, volume 10000, liquidity 50000, 500 holders, created 12 hours before
  the fetch; PumpFun and Birdeye fail. The market data that \<^verbatim>\<open>get_market_data\<close> makes
  of it. A predictor with no model loaded whose sentiment analysis fails, 36 seconds
  after the signal, and one with both models loaded, every scorer answering, at a
  given instant of the hype clock; their confidences are those of the signals below
  (18 of the 32 features are not zero). An
  assessment with safety score 95 in which GMGN alone answers and the sentiment
  analysis fails. The PASS analysis that \<^verbatim>\<open>_analyze_token\<close> builds on its two early returns.
\<close>

definition gmgn_a :: GmgnToken where
  "gmgn_a =
     \<lparr> gmgn_market_cap = 50000, gmgn_volume_24h = 10000, gmgn_liquidity = 50000,
       gmgn_holder_count = 500, gmgn_creation_timestamp = 1699956830 \<rparr>"

definition gmgn_only :: MarketEnv where
  "gmgn_only =
     \<lparr> gmgn_answer = Some gmgn_a, pumpfun_answer = None, birdeye_answer = None,
       clock = 1700000030 \<rparr>"

definition no_market_source :: MarketEnv where
  "no_market_source =
     \<lparr> gmgn_answer = None, pumpfun_answer = None, birdeye_answer = None, clock = 1700000030 \<rparr>"

definition market_a :: MarketData where
  "market_a =
     \<lparr> market_cap = Some 50000, liquidity = Some 50000, volume_24h = Some 10000,
       age_hours = Some 12, holder_count = Some 500, liquidity_locked = Some True,
       mint_disabled = Some True, volume_mc_ratio = Some (2 / 10),
       liquidity_mc_ratio = Some 1, distribution_score = Some (8 / 10) \<rparr>"

definition sentiment_down :: PredictorEnv where
  "sentiment_down =
     \<lparr> ml_answer = None, dl_answer = None,
       sentiment_answer = Failed ''analyzer unavailable'',
       hype_clock = of_seconds 36, confidence_answer = 37 / 48 \<rparr>"

definition models_up :: "datetime \<Rightarrow> PredictorEnv" where
  "models_up t =
     \<lparr> ml_answer = Some (Answered (95 / 100)), dl_answer = Some (Answered (95 / 100)),
       sentiment_answer = Answered (9 / 10),
       hype_clock = t, confidence_answer = 269 / 320 \<rparr>"

definition upstream_env :: "SnifferResponse \<Rightarrow> MarketEnv \<Rightarrow> PredictorEnv \<Rightarrow> AnalysisEnv" where
  "upstream_env s m p = \<lparr> sniffer_answer = s, market_env = m, predictor_env = p \<rparr>"

definition degraded_env :: AnalysisEnv where
  "degraded_env = upstream_env (SnifferStatus 200 (ScoreNumber 95)) gmgn_only sentiment_down"

definition pass_analysis :: "TokenDiscovery \<Rightarrow> int \<Rightarrow> MarketData \<Rightarrow> datetime \<Rightarrow> TokenAnalysis" where
  "pass_analysis d score md now =
     \<lparr> token_discovery = d, safety_score = score, market_data = md,
       ai_prediction = empty_ai_prediction, filter_passed = False,
       analysis_timestamp = now, recommendation = PASS \<rparr>"

text \<open>
  A second token and its signal; the default configuration with room for one position;
  the upstream answers under which a signal is assessed BUY 36 seconds after it was
  found (safety score 100, GMGN's market data, every scorer of the predictor
  answering); the analysis that results for a signal.
\<close>

definition token_b :: string where
  "token_b = ''BBBBBBBBBBBBBBBBBBBBBBBBBBBBBBBB''"

definition signal_b :: "datetime \<Rightarrow> TokenDiscovery" where
  "signal_b t =
     \<lparr> symbol = ''BBB'', contract_address = token_b, source = ''twitter'', timestamp = t,
       original_message = ''$BBB'', author = ''someone'', platform_url = [],
       confidence_score = 6 / 10 \<rparr>"

definition single_position_config :: TradingConfig where
  "single_position_config = trading_config\<lparr> max_positions := 1 \<rparr>"

definition buy_signal_env :: "datetime \<Rightarrow> AnalysisEnv" where
  "buy_signal_env t = upstream_env (SnifferStatus 200 (ScoreNumber 100)) gmgn_only (models_up t)"

definition buy_analysis :: "TokenDiscovery \<Rightarrow> datetime \<Rightarrow> TokenAnalysis" where
  "buy_analysis d now =
     \<lparr> token_discovery = d, safety_score = 100, market_data = market_a,
       ai_prediction = \<lparr> success_probability = Some (9037 / 10000), confidence = Some (269 / 320),
                         prediction_error = None \<rparr>,
       filter_passed = True, analysis_timestamp = now, recommendation = BUY \<rparr>"

text \<open>
  A run of the pipeline under that configuration, with the instants in seconds. The
  bot is started; the signals of the two tokens are collected (0, 3), admitted (4, 5)
  and assessed BUY (38, 41). The trading loop takes the
  first analysis and waits for \<^verbatim>\<open>buy_token\<close>. The operator stops the bot and starts it
  again: \<^verbatim>\<open>running\<close> is set before the waiting loop evaluates it, and a second trading loop
  is alive. That loop takes the second analysis and waits. Both buys are answered.
\<close>

definition race_queued :: Bot where
  "race_queued =
     process_analysis_step filter_config (of_seconds 41) (buy_signal_env (of_seconds 39))
       (process_analysis_step filter_config (of_seconds 38) (buy_signal_env (of_seconds 36))
          (process_discoveries_step (of_seconds 5)
             (process_discoveries_step (of_seconds 4)
                (put_discovery (signal_b (of_seconds 3))
                   (put_discovery (signal_a 0) (start [] (initial_bot True)))))))"

definition race_first_waiting :: Bot where
  "race_first_waiting = process_trading_begin single_position_config race_queued"

definition race_restarted :: Bot where
  "race_restarted = start [] (stop race_first_waiting)"

definition race_both_waiting :: Bot where
  "race_both_waiting = process_trading_begin single_position_config race_restarted"

definition race_bought :: Bot where
  "race_bought =
     process_trading_complete single_position_config (of_seconds 60) (rich_wallet 100 (15 / 1000)) 0
       (process_trading_complete single_position_config (of_seconds 55)
          (rich_wallet 100 (15 / 1000)) 0 race_both_waiting)"

text \<open>
  A market in which every token has one price and every sell is quoted at it, and a bot
  that holds the moonbag of the position after a take-profit exit.
\<close>

definition steady_market :: "real \<Rightarrow> MonitorEnv" where
  "steady_market quoted =
     \<lparr> price_answer = (\<lambda>addr. Some quoted),
       sell_env = (\<lambda>addr. rich_wallet quoted (quoted * (15 / 1000))) \<rparr>"

definition moonbag_holder :: Bot where
  "moonbag_holder =
     (initial_bot True)\<lparr> active_positions :=
        [(token_a, position_a\<lparr> status := PARTIAL_CLOSE, tokens_held := Some (225 / 100000),
                              amount_sol := 225 / 1000 \<rparr>)] \<rparr>"

section \<open>Properties\<close>

subsection \<open>Scoring\<close>

text \<open>
  What \<^verbatim>\<open>_get_recommendation\<close> computes: the safety score and the AI probability carry
  the weight 0.4 each, the market score the weight 0.2 divided by 100.
\<close>

lemma combined_score_formula:
  "combined_score s md ai =
     (4 / 10) * (real_of_int s / 100) + (4 / 10) * py_get (success_probability ai) 0
       + (2 / 10) * (calculate_market_score md / 100)"
  by (simp add: combined_score_def Let_def field_simps)

lemma scenario_market_score: "calculate_market_score scenario_market = 8 / 10"
  by (simp add: calculate_market_score_def scenario_market_def py_get_def Let_def)

lemma scenario_market_filters: "check_market_filters filter_config scenario_market"
  by (simp add: check_market_filters_def filter_config_def scenario_market_def py_get_def)

lemma scenario_combined_score: "combined_score 90 scenario_market scenario_ai = 7216 / 10000"
  by (simp add: combined_score_formula scenario_market_score scenario_ai_def py_get_def)

lemma market_score_le_1: "calculate_market_score md \<le> 1"
  by (simp add: calculate_market_score_def Let_def)

lemma market_score_nonneg:
  assumes "0 \<le> py_get (volume_24h md) 0" "0 \<le> py_get (liquidity md) 0"
    "0 \<le> py_get (holder_count md) 1"
  shows "0 \<le> calculate_market_score md"
  using assms by (simp add: calculate_market_score_def Let_def min_def max_def)

lemma analyze_token_filter_passed:
  "analyze_token fc now env d = Some a \<Longrightarrow> filter_passed a = (recommendation a \<in> {BUY, MONITOR})"
  by (auto simp: analyze_token_def Let_def split: if_splits option.splits)

text \<open>
  Claim C1, at the scenario of the specification (safety score 90, AI probability 0.9,
  market score 0.8, every filter passed): the code's combined score is 0.7216, not the
  0.88 that 0.4 * (90/100) + 0.4 * 0.9 + 0.2 * 0.8 gives, and the recommendation is
  MONITOR, not BUY.
\<close>

theorem combined_score_scenario:
  "calculate_market_score scenario_market = 8 / 10 \<and>
   check_market_filters filter_config scenario_market \<and>
   (4 / 10) * (90 / 100) + (4 / 10) * (9 / 10) + (2 / 10) * (8 / 10) = (88 / 100 :: real) \<and>
   combined_score 90 scenario_market scenario_ai = 7216 / 10000 \<and>
   get_recommendation filter_config 90 scenario_market scenario_ai = MONITOR"
proof -
  have r: "get_recommendation filter_config 90 scenario_market scenario_ai = MONITOR"
    by (simp add: get_recommendation_def scenario_combined_score filter_config_def Let_def)
  show ?thesis
    using r scenario_market_score scenario_market_filters scenario_combined_score by simp
qed

text \<open>
  Claim C3. For a safety score that reaches the scoring step (at least
  \<^verbatim>\<open>min_safety_score\<close>) and lies in 0..100, an AI probability in 0..1 and market data
  with non-negative volume, liquidity and holder count, the combined score lies in
  [0, 1]; the recommendation is BUY iff the score is at least 0.75, MONITOR iff it is at
  least 0.60 and below 0.75, and PASS otherwise; and in every analysis that
  \<^verbatim>\<open>_analyze_token\<close> returns, \<^verbatim>\<open>filter_passed\<close> holds iff the recommendation is BUY or
  MONITOR.
\<close>

theorem score_bounds_and_thresholds:
  assumes "min_safety_score fc \<le> s" "0 \<le> s" "s \<le> 100"
    "0 \<le> py_get (success_probability ai) 0" "py_get (success_probability ai) 0 \<le> 1"
    "0 \<le> py_get (volume_24h md) 0" "0 \<le> py_get (liquidity md) 0"
    "0 \<le> py_get (holder_count md) 1"
  shows "0 \<le> combined_score s md ai \<and> combined_score s md ai \<le> 1 \<and>
     (get_recommendation fc s md ai = BUY \<longleftrightarrow> combined_score s md ai \<ge> 75 / 100) \<and>
     (get_recommendation fc s md ai = MONITOR \<longleftrightarrow>
        6 / 10 \<le> combined_score s md ai \<and> combined_score s md ai < 75 / 100) \<and>
     (get_recommendation fc s md ai = PASS \<longleftrightarrow> combined_score s md ai < 6 / 10) \<and>
     (\<forall>now env d a. analyze_token fc now env d = Some a \<longrightarrow>
        (filter_passed a \<longleftrightarrow> recommendation a \<in> {BUY, MONITOR}))"
proof -
  have m0: "0 \<le> calculate_market_score md" using assms by (simp add: market_score_nonneg)
  have m1: "calculate_market_score md \<le> 1" by (rule market_score_le_1)
  have lo: "0 \<le> combined_score s md ai"
    using assms m0 by (simp add: combined_score_formula)
  have hi: "combined_score s md ai \<le> 1"
    using assms m1 by (simp add: combined_score_formula)
  have r: "\<not> s < min_safety_score fc" using assms by simp
  show ?thesis using lo hi r analyze_token_filter_passed
    by (auto simp: get_recommendation_def Let_def)
qed

theorem score_bounds_and_thresholds_witness:
  "min_safety_score filter_config \<le> 90 \<and>
   0 \<le> combined_score 90 scenario_market scenario_ai \<and>
   combined_score 90 scenario_market scenario_ai \<le> 1 \<and>
   6 / 10 \<le> combined_score 90 scenario_market scenario_ai \<and>
   combined_score 90 scenario_market scenario_ai < 75 / 100 \<and>
   get_recommendation filter_config 90 scenario_market scenario_ai = MONITOR"
proof -
  have h1: "min_safety_score filter_config \<le> 90" by (simp add: filter_config_def)
  have h2: "0 \<le> py_get (success_probability scenario_ai) 0"
    and h3: "py_get (success_probability scenario_ai) 0 \<le> 1"
    by (simp_all add: scenario_ai_def py_get_def)
  have h4: "0 \<le> py_get (volume_24h scenario_market) 0"
    and h5: "0 \<le> py_get (liquidity scenario_market) 0"
    and h6: "0 \<le> py_get (holder_count scenario_market) 1"
    by (simp_all add: scenario_market_def py_get_def)
  have c: "6 / 10 \<le> combined_score 90 scenario_market scenario_ai"
    "combined_score 90 scenario_market scenario_ai < 75 / 100"
    by (simp_all add: scenario_combined_score)
  from score_bounds_and_thresholds [OF h1 _ _ h2 h3 h4 h5 h6] c h1
  show ?thesis by simp
qed

subsection \<open>Deduplication of discoveries\<close>

lemma admitted_a_eq:
  "admitted_a = (initial_bot True)\<lparr> discovered_tokens := [(token_a, signal_a 0)],
                                    analysis_queue := [signal_a 0] \<rparr>"
  by (simp add: admitted_a_def process_discoveries_step_def recently_discovered_def
      initial_bot_def Let_def signal_a_def)

text \<open>
  A repeat less than an hour after the stored signal is skipped; a repeat at least an
  hour and less than a day after it is admitted.
\<close>

lemma recently_discovered_within_hour:
  assumes "map_of (discovered_tokens b) (contract_address d) = Some prev"
    and "0 \<le> now - timestamp prev" and "now - timestamp prev < of_seconds 3600"
  shows "recently_discovered now b d"
proof -
  have "(now - timestamp prev) div 1000000 < 3600"
    using assms(3) by (simp add: of_seconds_def)
  moreover have "0 \<le> (now - timestamp prev) div 1000000"
    using assms(2) by simp
  ultimately have "td_seconds (now - timestamp prev) < 3600"
    by (simp add: td_seconds_def)
  then show ?thesis using assms(1) by (simp add: recently_discovered_def)
qed

lemma not_recently_discovered_same_day:
  assumes "map_of (discovered_tokens b) (contract_address d) = Some prev"
    and "of_seconds 3600 \<le> now - timestamp prev" and "now - timestamp prev < of_seconds 86400"
  shows "\<not> recently_discovered now b d"
proof -
  have a: "3600 \<le> (now - timestamp prev) div 1000000"
    using assms(2) by (simp add: of_seconds_def)
  have b: "(now - timestamp prev) div 1000000 < 86400"
    using assms(3) by (simp add: of_seconds_def)
  have "td_seconds (now - timestamp prev) = (now - timestamp prev) div 1000000"
    using a b by (simp add: td_seconds_def)
  then show ?thesis using assms(1) a by (simp add: recently_discovered_def)
qed

text \<open>
  Claim C6, at a repeat that arrives 24 hours and 10 minutes after the admitted signal:
  the window of one hour has expired, but \<^verbatim>\<open>.seconds\<close> of the elapsed time is 600, so
  the repeat is skipped as a duplicate and the analysis queue still holds the first
  signal only.
\<close>

theorem dedup_repeat_after_a_day:
  "analysis_queue admitted_a = [signal_a 0] \<and>
   of_seconds 87000 - timestamp (signal_a 0) > of_seconds 3600 \<and>
   td_seconds (of_seconds 87000 - timestamp (signal_a 0)) = 600 \<and>
   recently_discovered (of_seconds 87000) admitted_a (signal_a (of_seconds 87000)) \<and>
   analysis_queue (process_discoveries_step (of_seconds 87000)
      (admitted_a\<lparr> discovery_queue := [signal_a (of_seconds 87000)] \<rparr>)) = [signal_a 0]"
proof -
  have s: "td_seconds (of_seconds 87000 - timestamp (signal_a 0)) = 600"
    by (simp add: td_seconds_def of_seconds_def signal_a_def)
  have r: "recently_discovered (of_seconds 87000) (admitted_a\<lparr> discovery_queue := [] \<rparr>) (signal_a (of_seconds 87000))"
    using s by (simp add: recently_discovered_def admitted_a_eq signal_a_def)
  have r': "recently_discovered (of_seconds 87000) admitted_a (signal_a (of_seconds 87000))"
    using s by (simp add: recently_discovered_def admitted_a_eq signal_a_def)
  have q: "analysis_queue (process_discoveries_step (of_seconds 87000)
      (admitted_a\<lparr> discovery_queue := [signal_a (of_seconds 87000)] \<rparr>)) = analysis_queue admitted_a"
    using r by (simp add: process_discoveries_step_def Let_def)
  have a: "analysis_queue admitted_a = [signal_a 0]" by (simp add: admitted_a_eq)
  show ?thesis using s r' q a by (simp add: of_seconds_def signal_a_def)
qed

subsection \<open>Confirmation polling\<close>

declare wait_loop.simps [simp del]










subsection \<open>Buying and selling with an insufficient balance\<close>

lemma failed_trade_fields [simp]:
  "success (failed_trade e) = False" "error (failed_trade e) = Some e"
  "price (failed_trade e) = None" "sol_received (failed_trade e) = None"
  "tokens_received (failed_trade e) = None"
  by (simp_all add: failed_trade_def)

text \<open>
  Claim C10 as stated fails where no venue quotes: \<^verbatim>\<open>buy_token\<close> asks for the quote
  before it reads the balance, so a wallet with 0.5 SOL that is asked for 1.5 SOL gets
  the error "Failed to get quote", not an insufficient-balance error.
\<close>

theorem buy_without_quote_counterexample:
  "balance_answer poor_wallet_no_quote < 3 / 2 \<and>
   error (fst (buy_token poor_wallet_no_quote connected_trader token_a (3 / 2) (2 / 10)))
     = Some QuoteFailed \<and>
   error (fst (buy_token poor_wallet_no_quote connected_trader token_a (3 / 2) (2 / 10)))
     \<noteq> Some (InsufficientSOL (1 / 2) (3 / 2))"
  by (simp add: buy_token_def poor_wallet_no_quote_def connected_trader_def)

text \<open>
  Claim C10, amended. When the balance is below the requested amount, \<^verbatim>\<open>buy_token\<close>
  and \<^verbatim>\<open>sell_token\<close> return a failed \<^verbatim>\<open>TradeResult\<close> with an error and leave the
  trader as it was: no swap is executed and no transaction is logged. The error is the
  insufficient-balance one when the check is reached: for a buy, when the client is
  initialised and a quote was obtained; for a sell, when the client is initialised.
\<close>

theorem insufficient_balance_rejected:
  assumes "balance_answer env < amount"
  shows "\<not> success (fst (buy_token env t addr amount slippage)) \<and>
     error (fst (buy_token env t addr amount slippage)) \<noteq> None \<and>
     snd (buy_token env t addr amount slippage) = t \<and>
     (connected t \<and> quote_answer env \<noteq> None \<longrightarrow>
        error (fst (buy_token env t addr amount slippage))
          = Some (InsufficientSOL (balance_answer env) amount)) \<and>
     \<not> success (fst (sell_token env t addr amount slippage)) \<and>
     snd (sell_token env t addr amount slippage) = t \<and>
     (connected t \<longrightarrow>
        error (fst (sell_token env t addr amount slippage))
          = Some (InsufficientToken (balance_answer env) amount))"
  using assms
  by (auto simp: buy_token_def sell_token_def Let_def split: option.splits)

theorem insufficient_balance_rejected_witness:
  "balance_answer poor_wallet_quoted < 3 / 2 \<and>
   \<not> success (fst (buy_token poor_wallet_quoted connected_trader token_a (3 / 2) (2 / 10))) \<and>
   snd (buy_token poor_wallet_quoted connected_trader token_a (3 / 2) (2 / 10)) = connected_trader \<and>
   error (fst (buy_token poor_wallet_quoted connected_trader token_a (3 / 2) (2 / 10)))
     = Some (InsufficientSOL (1 / 2) (3 / 2)) \<and>
   \<not> success (fst (sell_token poor_wallet_quoted connected_trader token_a (3 / 2) (25 / 100))) \<and>
   snd (sell_token poor_wallet_quoted connected_trader token_a (3 / 2) (25 / 100)) = connected_trader \<and>
   error (fst (sell_token poor_wallet_quoted connected_trader token_a (3 / 2) (25 / 100)))
     = Some (InsufficientToken (1 / 2) (3 / 2))"
proof -
  have h: "balance_answer poor_wallet_quoted < 3 / 2" by (simp add: poor_wallet_quoted_def)
  have c: "connected connected_trader" "quote_answer poor_wallet_quoted \<noteq> None"
    "balance_answer poor_wallet_quoted = 1 / 2"
    by (simp_all add: connected_trader_def poor_wallet_quoted_def)
  from insufficient_balance_rejected [OF h, of connected_trader token_a "2 / 10"]
    insufficient_balance_rejected [OF h, of connected_trader token_a "25 / 100"] h c
  show ?thesis by simp
qed

subsection \<open>Opening a position, exit rules, exits\<close>

lemma buy_token_success:
  assumes "connected t" "quote_answer env = Some (RaydiumQuote p out)" "amount \<le> balance_answer env"
  shows "fst (buy_token env t addr amount slippage) =
     \<lparr> success = True, transaction_id = Some (raydium_tx_id env), price = Some p,
       amount_in = Some amount, amount_out = None, tokens_received = Some out,
       sol_received = None, error = None \<rparr>"
  using assms
  by (simp add: buy_token_def Let_def execute_trade_def execute_raydium_swap_def)

lemma bought_position_a:
  "map_of (active_positions (snd (execute_buy_order trading_config 0
      (rich_wallet 100 (15 / 1000)) analysis_a (initial_bot True)))) token_a = Some position_a"
proof -
  have r: "fst (buy_token (rich_wallet 100 (15 / 1000)) (solana_trader (initial_bot True)) token_a (3 / 2) (2 / 10)) =
     \<lparr> success = True, transaction_id = Some ''raydium_1700000000'', price = Some 100,
       amount_in = Some (3 / 2), amount_out = None, tokens_received = Some (15 / 1000),
       sol_received = None, error = None \<rparr>"
    using buy_token_success [of "solana_trader (initial_bot True)" "rich_wallet 100 (15 / 1000)" 100 "15 / 1000" "3 / 2" token_a "2 / 10"]
    by (simp add: rich_wallet_def initial_bot_def)
  show ?thesis
    using r
    by (simp add: execute_buy_order_def execute_buy_order_complete_def Let_def
        trading_config_def analysis_a_def signal_a_def split_beta position_a_def)
       (simp add: initial_bot_def)
qed

text \<open>
  Claim C4, amended. A successful buy at price \<open>p\<close> of a token without a position
  stores an OPEN position with entry price \<open>p\<close>, stop-loss price
  \<open>p * (1 - stop_loss_percentage)\<close> and take-profit price \<open>p * take_profit_multiplier\<close>.
  The exit check returns TAKE_PROFIT when the current price is at or above the
  take-profit price, else STOP_LOSS when it is at or below the stop-loss price, else
  TIME_LIMIT when the position is at least 24 hours old, else no exit. A position that
  is at least 24 hours old always exits, whatever the price; the reason is TIME_LIMIT
  exactly when the price is strictly between the stop-loss and the take-profit price.
\<close>

theorem buy_sets_exit_prices_and_exit_rules:
  "(contract_address (token_discovery a) \<notin> fst ` set (active_positions b) \<and>
    success (fst (buy_token env (solana_trader b) (contract_address (token_discovery a))
               (min (buy_amount_sol tc) (max_buy_amount_sol tc)) (buy_slippage tc))) \<and>
    price (fst (buy_token env (solana_trader b) (contract_address (token_discovery a))
               (min (buy_amount_sol tc) (max_buy_amount_sol tc)) (buy_slippage tc))) = Some p
    \<longrightarrow> (\<exists>created. map_of (active_positions (snd (execute_buy_order tc now env a b)))
                   (contract_address (token_discovery a)) = Some created \<and>
               status created = OPEN \<and> entry_price created = p \<and>
               stop_loss_price created = p * (1 - stop_loss_percentage tc) \<and>
               take_profit_price created = p * take_profit_multiplier tc)) \<and>
   check_exit_conditions now pos =
     (if current_price pos \<ge> take_profit_price pos then (True, TAKE_PROFIT)
      else if current_price pos \<le> stop_loss_price pos then (True, STOP_LOSS)
      else if now - entry_timestamp pos \<ge> of_seconds (24 * 3600) then (True, TIME_LIMIT)
      else (False, NO_REASON)) \<and>
   (now - entry_timestamp pos \<ge> of_seconds (24 * 3600) \<longrightarrow>
      fst (check_exit_conditions now pos) \<and>
      (snd (check_exit_conditions now pos) = TIME_LIMIT \<longleftrightarrow>
         stop_loss_price pos < current_price pos \<and> current_price pos < take_profit_price pos))"
proof -
  have t: "(total_seconds (now - entry_timestamp pos) / 3600 \<ge> 24) =
           (now - entry_timestamp pos \<ge> of_seconds (24 * 3600))"
  proof -
    have "(total_seconds (now - entry_timestamp pos) / 3600 \<ge> 24) =
          (real_of_int (now - entry_timestamp pos) \<ge> real_of_int 86400000000)"
      by (simp add: total_seconds_def field_simps)
    also have "\<dots> = (now - entry_timestamp pos \<ge> 86400000000)"
      by (simp only: of_int_le_iff)
    finally show ?thesis by (simp add: of_seconds_def)
  qed
  have chain: "check_exit_conditions now pos =
     (if current_price pos \<ge> take_profit_price pos then (True, TAKE_PROFIT)
      else if current_price pos \<le> stop_loss_price pos then (True, STOP_LOSS)
      else if now - entry_timestamp pos \<ge> of_seconds (24 * 3600) then (True, TIME_LIMIT)
      else (False, NO_REASON))"
    unfolding check_exit_conditions_def Let_def t by simp
  have buy: "contract_address (token_discovery a) \<notin> fst ` set (active_positions b) \<and>
    success (fst (buy_token env (solana_trader b) (contract_address (token_discovery a))
               (min (buy_amount_sol tc) (max_buy_amount_sol tc)) (buy_slippage tc))) \<and>
    price (fst (buy_token env (solana_trader b) (contract_address (token_discovery a))
               (min (buy_amount_sol tc) (max_buy_amount_sol tc)) (buy_slippage tc))) = Some p
    \<longrightarrow> (\<exists>created. map_of (active_positions (snd (execute_buy_order tc now env a b)))
                   (contract_address (token_discovery a)) = Some created \<and>
               status created = OPEN \<and> entry_price created = p \<and>
               stop_loss_price created = p * (1 - stop_loss_percentage tc) \<and>
               take_profit_price created = p * take_profit_multiplier tc)"
    by (simp add: execute_buy_order_def execute_buy_order_complete_def Let_def split_beta
        update_conv')
  show ?thesis
    using buy chain by (simp only: ) auto
qed

theorem buy_sets_exit_prices_and_exit_rules_witness:
  "map_of (active_positions (snd (execute_buy_order trading_config 0
      (rich_wallet 100 (15 / 1000)) analysis_a (initial_bot True)))) token_a = Some position_a \<and>
   entry_price position_a = 100 \<and> stop_loss_price position_a = 50 \<and>
   take_profit_price position_a = 1000 \<and>
   check_exit_conditions (of_seconds 60) (position_a\<lparr> current_price := 1000 \<rparr>) = (True, TAKE_PROFIT) \<and>
   check_exit_conditions (of_seconds 60) (position_a\<lparr> current_price := 50 \<rparr>) = (True, STOP_LOSS) \<and>
   check_exit_conditions (of_seconds 60) (position_a\<lparr> current_price := 500 \<rparr>) = (False, NO_REASON) \<and>
   check_exit_conditions (of_seconds 90000) (position_a\<lparr> current_price := 500 \<rparr>) = (True, TIME_LIMIT)"
proof -
  have e: "check_exit_conditions (of_seconds 60) (position_a\<lparr> current_price := 1000 \<rparr>) = (True, TAKE_PROFIT)"
    "check_exit_conditions (of_seconds 60) (position_a\<lparr> current_price := 50 \<rparr>) = (True, STOP_LOSS)"
    "check_exit_conditions (of_seconds 60) (position_a\<lparr> current_price := 500 \<rparr>) = (False, NO_REASON)"
    "check_exit_conditions (of_seconds 90000) (position_a\<lparr> current_price := 500 \<rparr>) = (True, TIME_LIMIT)"
    using buy_sets_exit_prices_and_exit_rules [where now = "of_seconds 60" and pos = "position_a\<lparr> current_price := 1000 \<rparr>"]
      buy_sets_exit_prices_and_exit_rules [where now = "of_seconds 60" and pos = "position_a\<lparr> current_price := 50 \<rparr>"]
      buy_sets_exit_prices_and_exit_rules [where now = "of_seconds 60" and pos = "position_a\<lparr> current_price := 500 \<rparr>"]
      buy_sets_exit_prices_and_exit_rules [where now = "of_seconds 90000" and pos = "position_a\<lparr> current_price := 500 \<rparr>"]
    by (simp_all add: position_a_def of_seconds_def)
  show ?thesis using e bought_position_a by (simp add: position_a_def)
qed

text \<open>
  Claim C4 as stated fails in its last sentence: a position 25 hours old whose price
  has reached the take-profit price exits with TAKE_PROFIT, not TIME_LIMIT.
\<close>

theorem old_position_take_profit_counterexample:
  "of_seconds 90000 - entry_timestamp (position_a\<lparr> current_price := 1000 \<rparr>) \<ge> of_seconds (24 * 3600) \<and>
   check_exit_conditions (of_seconds 90000) (position_a\<lparr> current_price := 1000 \<rparr>) = (True, TAKE_PROFIT) \<and>
   snd (check_exit_conditions (of_seconds 90000) (position_a\<lparr> current_price := 1000 \<rparr>)) \<noteq> TIME_LIMIT"
  by (simp add: check_exit_conditions_def position_a_def of_seconds_def)






subsection \<open>Assessment when an upstream service fails\<close>

text \<open>
  The market data and the scores of the concrete assessment: GMGN alone answers, the
  sentiment analysis fails, no model is loaded.
\<close>

lemma gmgn_only_market_data: "get_market_data gmgn_only = market_a"
  by (simp add: get_market_data_def gmgn_only_def gmgn_a_def market_a_def py_or_def py_get_def
      Let_def)

lemma market_a_filters: "check_market_filters filter_config market_a"
  by (simp add: check_market_filters_def filter_config_def market_a_def py_get_def)

lemma market_a_score: "calculate_market_score market_a = 8 / 10"
  by (simp add: calculate_market_score_def market_a_def py_get_def Let_def)

lemma market_a_technical: "analyze_technical_indicators market_a = 825 / 1000"
  by (simp add: analyze_technical_indicators_def market_a_def py_get_def Let_def)

lemma signal_a_hype: "calculate_social_hype (of_seconds 36) (signal_a 0) = 837 / 1000"
  by (simp add: calculate_social_hype_def signal_a_def source_weight_def total_seconds_def
      of_seconds_def Let_def)

lemma sentiment_down_prediction:
  "predict_success sentiment_down (signal_a 0) market_a =
     \<lparr> success_probability = Some (6974 / 10000), confidence = Some (37 / 48),
       prediction_error = None \<rparr>"
  by (simp add: predict_success_def sentiment_down_def ensemble_predictions_def
      score_or_half_def market_a_technical signal_a_hype Let_def)

lemma sentiment_down_recommendation:
  "get_recommendation filter_config 95 market_a
     (predict_success sentiment_down (signal_a 0) market_a) = MONITOR"
proof -
  have c: "combined_score 95 market_a (predict_success sentiment_down (signal_a 0) market_a)
             = 66056 / 100000"
    by (simp add: combined_score_formula market_a_score sentiment_down_prediction py_get_def)
  show ?thesis
    by (simp add: get_recommendation_def c Let_def filter_config_def)
qed

text \<open>
  A 200 answer of the safety service whose score is \<^verbatim>\<open>null\<close> produces no assessment.
\<close>

lemma null_score_no_assessment:
  "sniffer_answer env = SnifferStatus 200 ScoreNull \<Longrightarrow> analyze_token fc now env d = None"
  by (simp add: analyze_token_def get_safety_score_def)

text \<open>
  Claim C9 as stated fails. The safety score is 95; PumpFun and Birdeye fail during the
  market-data fetch, GMGN answers; no model is loaded and the sentiment analysis fails
  during the AI prediction. The market data pass the filters, the failed sentiment
  counts as 0.5 in a blended probability of 0.6974, the combined score is 0.66056, and
  the assessment is MONITOR with \<^verbatim>\<open>filter_passed\<close>, not PASS.
\<close>

theorem degraded_sources_monitor_counterexample:
  "pumpfun_answer (market_env degraded_env) = None \<and>
   birdeye_answer (market_env degraded_env) = None \<and>
   sentiment_answer (predictor_env degraded_env) = Failed ''analyzer unavailable'' \<and>
   analyze_token filter_config (of_seconds 37) degraded_env (signal_a 0) =
     Some \<lparr> token_discovery = signal_a 0, safety_score = 95, market_data = market_a,
            ai_prediction = \<lparr> success_probability = Some (6974 / 10000),
                              confidence = Some (37 / 48), prediction_error = None \<rparr>,
            filter_passed = True, analysis_timestamp = of_seconds 37,
            recommendation = MONITOR \<rparr>"
proof -
  have e: "sniffer_answer degraded_env = SnifferStatus 200 (ScoreNumber 95)"
    "market_env degraded_env = gmgn_only" "predictor_env degraded_env = sentiment_down"
    by (simp_all add: degraded_env_def upstream_env_def)
  have m: "\<not> (95 :: int) < min_safety_score filter_config" by (simp add: filter_config_def)
  have a: "analyze_token filter_config (of_seconds 37) degraded_env (signal_a 0) =
     Some \<lparr> token_discovery = signal_a 0, safety_score = 95, market_data = market_a,
            ai_prediction = \<lparr> success_probability = Some (6974 / 10000),
                              confidence = Some (37 / 48), prediction_error = None \<rparr>,
            filter_passed = True, analysis_timestamp = of_seconds 37,
            recommendation = MONITOR \<rparr>"
    using sentiment_down_recommendation m
    by (simp add: analyze_token_def e get_safety_score_def gmgn_only_market_data
        market_a_filters sentiment_down_prediction Let_def)
  have f: "pumpfun_answer gmgn_only = None" "birdeye_answer gmgn_only = None"
    "sentiment_answer sentiment_down = Failed ''analyzer unavailable''"
    by (simp_all add: gmgn_only_def sentiment_down_def)
  show ?thesis using a f by (simp add: e)
qed

text \<open>
  Claim C9, amended. Under a configuration whose minimum safety score and minimum
  market cap are positive (the default one): a failed safety-score fetch (an exception
  or a status other than 200) yields the PASS assessment with safety score 0 and no
  market data; with a safety score that passes, a failed GMGN fetch leaves the market
  data without a market cap and yields the PASS assessment that carries the safety
  score and the market data gathered; when the market data pass the filters, whatever
  failed, an assessment is produced that carries the safety score, the market data and
  a prediction without an error, and its recommendation is the one that the thresholds
  give for that prediction; in the prediction a scorer that failed counts as one that
  answered 0.5. The analysis loop takes the signal off its queue and puts it on no
  queue again.
\<close>

theorem upstream_failure_assessment:
  assumes "0 < min_safety_score fc" and "0 < min_market_cap fc"
  shows "(sniffer_answer env = SnifferRaised e \<or>
      (\<exists>code score. code \<noteq> 200 \<and> sniffer_answer env = SnifferStatus code score) \<longrightarrow>
        analyze_token fc now env d = Some (pass_analysis d 0 empty_market_data now)) \<and>
     (sniffer_answer env = SnifferStatus 200 (ScoreNumber s) \<and> min_safety_score fc \<le> s \<and>
        gmgn_answer (market_env env) = None \<longrightarrow>
        market_cap (get_market_data (market_env env)) = None \<and>
        analyze_token fc now env d
          = Some (pass_analysis d s (get_market_data (market_env env)) now)) \<and>
     (sniffer_answer env = SnifferStatus 200 (ScoreNumber s) \<and> min_safety_score fc \<le> s \<and>
        check_market_filters fc (get_market_data (market_env env)) \<longrightarrow>
        (\<exists>a. analyze_token fc now env d = Some a \<and> token_discovery a = d \<and>
             safety_score a = s \<and> market_data a = get_market_data (market_env env) \<and>
             ai_prediction a = predict_success (predictor_env env) d (market_data a) \<and>
             prediction_error (ai_prediction a) = None \<and>
             recommendation a = get_recommendation fc s (market_data a) (ai_prediction a) \<and>
             filter_passed a = (recommendation a \<in> {BUY, MONITOR}))) \<and>
     predict_success (penv\<lparr> sentiment_answer := Failed e \<rparr>) d md
       = predict_success (penv\<lparr> sentiment_answer := Answered (1 / 2) \<rparr>) d md \<and>
     predict_success (penv\<lparr> ml_answer := Some (Failed e) \<rparr>) d md
       = predict_success (penv\<lparr> ml_answer := Some (Answered (1 / 2)) \<rparr>) d md \<and>
     predict_success (penv\<lparr> dl_answer := Some (Failed e) \<rparr>) d md
       = predict_success (penv\<lparr> dl_answer := Some (Answered (1 / 2)) \<rparr>) d md \<and>
     analysis_queue (process_analysis_step fc now env b) = tl (analysis_queue b) \<and>
     discovery_queue (process_analysis_step fc now env b) = discovery_queue b"
proof -
  have p1: "sniffer_answer env = SnifferRaised e \<or>
      (\<exists>code score. code \<noteq> 200 \<and> sniffer_answer env = SnifferStatus code score) \<longrightarrow>
        analyze_token fc now env d = Some (pass_analysis d 0 empty_market_data now)"
    using assms(1) by (auto simp: analyze_token_def get_safety_score_def pass_analysis_def)
  have p2: "sniffer_answer env = SnifferStatus 200 (ScoreNumber s) \<and> min_safety_score fc \<le> s \<and>
        gmgn_answer (market_env env) = None \<longrightarrow>
        market_cap (get_market_data (market_env env)) = None \<and>
        analyze_token fc now env d
          = Some (pass_analysis d s (get_market_data (market_env env)) now)"
  proof (intro impI, elim conjE)
    assume h: "sniffer_answer env = SnifferStatus 200 (ScoreNumber s)" "min_safety_score fc \<le> s"
      "gmgn_answer (market_env env) = None"
    have mc: "market_cap (get_market_data (market_env env)) = None"
      using h(3) by (simp add: get_market_data_def Let_def)
    have nf: "\<not> check_market_filters fc (get_market_data (market_env env))"
      using mc assms(2) by (simp add: check_market_filters_def py_get_def Let_def)
    have "analyze_token fc now env d
          = Some (pass_analysis d s (get_market_data (market_env env)) now)"
      using h(1,2) nf by (simp add: analyze_token_def get_safety_score_def pass_analysis_def Let_def)
    with mc show "market_cap (get_market_data (market_env env)) = None \<and>
        analyze_token fc now env d
          = Some (pass_analysis d s (get_market_data (market_env env)) now)" by simp
  qed
  have p3: "sniffer_answer env = SnifferStatus 200 (ScoreNumber s) \<and> min_safety_score fc \<le> s \<and>
        check_market_filters fc (get_market_data (market_env env)) \<longrightarrow>
        (\<exists>a. analyze_token fc now env d = Some a \<and> token_discovery a = d \<and>
             safety_score a = s \<and> market_data a = get_market_data (market_env env) \<and>
             ai_prediction a = predict_success (predictor_env env) d (market_data a) \<and>
             prediction_error (ai_prediction a) = None \<and>
             recommendation a = get_recommendation fc s (market_data a) (ai_prediction a) \<and>
             filter_passed a = (recommendation a \<in> {BUY, MONITOR}))"
    by (simp add: analyze_token_def get_safety_score_def Let_def predict_success_def)
  have p4: "predict_success (penv\<lparr> sentiment_answer := Failed e \<rparr>) d md
       = predict_success (penv\<lparr> sentiment_answer := Answered (1 / 2) \<rparr>) d md"
    "predict_success (penv\<lparr> ml_answer := Some (Failed e) \<rparr>) d md
       = predict_success (penv\<lparr> ml_answer := Some (Answered (1 / 2)) \<rparr>) d md"
    "predict_success (penv\<lparr> dl_answer := Some (Failed e) \<rparr>) d md
       = predict_success (penv\<lparr> dl_answer := Some (Answered (1 / 2)) \<rparr>) d md"
    by (simp_all add: predict_success_def score_or_half_def)
  have q: "analysis_queue (process_analysis_step fc now env b) = tl (analysis_queue b) \<and>
     discovery_queue (process_analysis_step fc now env b) = discovery_queue b"
    by (cases "analysis_queue b")
       (auto simp: process_analysis_step_def Let_def split: option.splits)
  from p1 p2 p3 p4 q show ?thesis by blast
qed

theorem upstream_failure_assessment_witness:
  "0 < min_safety_score filter_config \<and> 0 < min_market_cap filter_config \<and>
   analyze_token filter_config 5
       (upstream_env (SnifferRaised ''timeout'') gmgn_only sentiment_down) (signal_a 0)
     = Some (pass_analysis (signal_a 0) 0 empty_market_data 5) \<and>
   gmgn_answer (market_env (upstream_env (SnifferStatus 200 (ScoreNumber 90)) no_market_source sentiment_down))
     = None \<and>
   analyze_token filter_config 5
       (upstream_env (SnifferStatus 200 (ScoreNumber 90)) no_market_source sentiment_down) (signal_a 0)
     = Some (pass_analysis (signal_a 0) 90 (get_market_data no_market_source) 5) \<and>
   check_market_filters filter_config (get_market_data gmgn_only) \<and>
   (\<exists>a. analyze_token filter_config 5
           (upstream_env (SnifferStatus 200 (ScoreNumber 95)) gmgn_only sentiment_down)
           (signal_a 0) = Some a \<and>
        safety_score a = 95 \<and> market_data a = market_a \<and>
        prediction_error (ai_prediction a) = None \<and> recommendation a = MONITOR \<and>
        filter_passed a) \<and>
   analysis_queue (process_analysis_step filter_config 5
       (upstream_env (SnifferStatus 200 (ScoreNumber 95)) gmgn_only sentiment_down)
       admitted_a) = []"
proof -
  have h1: "0 < min_safety_score filter_config" by (simp add: filter_config_def)
  have h2: "0 < min_market_cap filter_config" by (simp add: filter_config_def)
  have h3: "min_safety_score filter_config \<le> 90" "min_safety_score filter_config \<le> 95"
    by (simp_all add: filter_config_def)
  have f: "check_market_filters filter_config (get_market_data gmgn_only)"
    by (simp add: gmgn_only_market_data market_a_filters)
  have g: "gmgn_answer (market_env (upstream_env (SnifferStatus 200 (ScoreNumber 90)) no_market_source sentiment_down))
     = None"
    by (simp add: upstream_env_def no_market_source_def)
  note w = upstream_failure_assessment [OF h1 h2]
  have a: "analyze_token filter_config 5
       (upstream_env (SnifferRaised ''timeout'') gmgn_only sentiment_down) (signal_a 0)
     = Some (pass_analysis (signal_a 0) 0 empty_market_data 5)"
    using w [where env = "upstream_env (SnifferRaised ''timeout'') gmgn_only sentiment_down"
        and e = "''timeout''" and now = 5 and d = "signal_a 0"]
    by (simp add: upstream_env_def)
  have b: "analyze_token filter_config 5
       (upstream_env (SnifferStatus 200 (ScoreNumber 90)) no_market_source sentiment_down) (signal_a 0)
     = Some (pass_analysis (signal_a 0) 90 (get_market_data no_market_source) 5)"
    using w [where env = "upstream_env (SnifferStatus 200 (ScoreNumber 90)) no_market_source sentiment_down"
        and s = 90 and now = 5 and d = "signal_a 0"] h3 g
    by (simp add: upstream_env_def)
  have c: "\<exists>a. analyze_token filter_config 5
           (upstream_env (SnifferStatus 200 (ScoreNumber 95)) gmgn_only sentiment_down)
           (signal_a 0) = Some a \<and>
        safety_score a = 95 \<and> market_data a = market_a \<and>
        prediction_error (ai_prediction a) = None \<and> recommendation a = MONITOR \<and>
        filter_passed a"
    using w [where env = "upstream_env (SnifferStatus 200 (ScoreNumber 95)) gmgn_only sentiment_down"
        and s = 95 and now = 5 and d = "signal_a 0"] h3 f sentiment_down_recommendation
    by (fastforce simp: upstream_env_def gmgn_only_market_data)
  have q: "analysis_queue (process_analysis_step filter_config 5
       (upstream_env (SnifferStatus 200 (ScoreNumber 95)) gmgn_only sentiment_down)
       admitted_a) = []"
    using w [where env = "upstream_env (SnifferStatus 200 (ScoreNumber 95)) gmgn_only sentiment_down"
        and b = admitted_a and now = 5]
    by (simp add: admitted_a_eq)
  show ?thesis using h1 h2 f g a b c q by blast
qed

subsection \<open>The ledger\<close>

lemma length_update_present: "k \<in> fst ` set al \<Longrightarrow> length (AList.update k v al) = length al"
  by (induction al) auto

lemma store_object_length [simp]: "length (store_object k p al) = length al"
  by (simp add: store_object_def length_update_present)

lemma store_object_keys [simp]: "map fst (store_object k p al) = map fst al"
  by (simp add: store_object_def update_keys)

lemma set_update_subset: "set (AList.update k v al) \<subseteq> insert (k, v) (set al)"
  by (induction al) auto

lemma set_delete_subset: "set (AList.delete k al) \<subseteq> set al"
  by (auto simp: AList.delete_eq)

lemma set_store_object_subset: "set (store_object k p al) \<subseteq> insert (k, p) (set al)"
  using set_update_subset [of k p al] by (auto simp: store_object_def)

lemma entries_ok_store:
  "entries_ok al \<Longrightarrow> token_address p = k \<Longrightarrow> entries_ok (store_object k p al)"
  using set_store_object_subset [of k p al]
  by (auto simp: entries_ok_def list_all_iff)

lemma entries_ok_update:
  "entries_ok al \<Longrightarrow> token_address p = k \<Longrightarrow> entries_ok (AList.update k p al)"
  using set_update_subset [of k p al]
  by (auto simp: entries_ok_def list_all_iff distinct_update)

lemma entries_ok_delete: "entries_ok al \<Longrightarrow> entries_ok (AList.delete k al)"
  using set_delete_subset [of k al]
  by (auto simp: entries_ok_def list_all_iff distinct_delete)

text \<open>
  Each step of the pipeline keeps the ledger a dictionary whose positions are stored
  under their own addresses, however many trading loops are alive.
\<close>

lemma sell_order_entries:
  "entries_ok (active_positions b) \<Longrightarrow> token_address position = k \<Longrightarrow>
     entries_ok (active_positions (snd (execute_sell_order tc env k position reason b)))"
  by (simp add: execute_sell_order_def Let_def split_beta entries_ok_store entries_ok_delete
      split: option.splits)

lemma monitor_exit_entries:
  assumes "entries_ok (active_positions b)" "token_address position = k"
  shows "entries_ok (active_positions (monitor_exit tc now env k position b))"
  using assms by (simp add: monitor_exit_def split_beta sell_order_entries)

lemma monitor_position_entries:
  assumes "entries_ok (active_positions b)" "token_address (snd item) = fst item"
  shows "entries_ok (active_positions (snd (monitor_position tc now env item b)))"
proof (cases "status (snd item) = OPEN")
  case False
  then show ?thesis using assms by (simp add: monitor_position_def)
next
  case open_item: True
  show ?thesis
  proof (cases "price_answer env (fst item)")
    case None
    then show ?thesis
      using assms open_item by (simp add: monitor_position_def monitor_exit_entries)
  next
    case (Some fetched)
    let ?p1 = "(snd item)\<lparr> current_price := fetched \<rparr>"
    let ?b1 = "b\<lparr> active_positions := store_object (fst item) ?p1 (active_positions b) \<rparr>"
    let ?p2 = "?p1\<lparr> pnl_percent :=
                 ((fetched - entry_price (snd item)) / entry_price (snd item)) * 100 \<rparr>"
    let ?b2 = "?b1\<lparr> active_positions := store_object (fst item) ?p2 (active_positions ?b1) \<rparr>"
    have b1: "entries_ok (active_positions ?b1)"
      using entries_ok_store [OF assms(1), of ?p1 "fst item"] assms(2) by simp
    have b2: "entries_ok (active_positions ?b2)"
      using entries_ok_store [OF b1, of ?p2 "fst item"] assms(2) by simp
    have x: "entries_ok (active_positions (monitor_exit tc now env (fst item) ?p2 ?b2))"
      using b2 assms(2) by (intro monitor_exit_entries) simp_all
    have y: "entries_ok (active_positions (monitor_exit tc now env (fst item) (snd item) b))"
      using assms by (intro monitor_exit_entries) simp_all
    show ?thesis
      using Some open_item b1 x y by (simp add: monitor_position_def Let_def)
  qed
qed

lemma monitor_loop_entries:
  "entries_ok (active_positions b) \<Longrightarrow>
   list_all (\<lambda>item. token_address (snd item) = fst item) items \<Longrightarrow>
     entries_ok (active_positions (monitor_loop tc now env items b))"
proof (induction items arbitrary: b)
  case Nil
  then show ?case by simp
next
  case (Cons item items)
  have "entries_ok (active_positions (snd (monitor_position tc now env item b)))"
    using Cons.prems by (simp add: monitor_position_entries)
  then show ?case using Cons by (simp add: split_beta)
qed

lemma monitor_tick_entries:
  assumes "entries_ok (active_positions b)"
  shows "entries_ok (active_positions (monitor_positions_tick tc now env b))"
proof -
  have "list_all (\<lambda>item. token_address (snd item) = fst item) (active_positions b)"
    using assms by (simp add: entries_ok_def)
  then have "entries_ok (active_positions (monitor_loop tc now env (active_positions b) b))"
    using assms by (simp add: monitor_loop_entries)
  then show ?thesis using assms by (simp add: monitor_positions_tick_def)
qed

lemma trading_begin_positions:
  "active_positions (process_trading_begin tc b) = active_positions b"
  by (simp add: process_trading_begin_def Let_def split: list.splits)

lemma buy_complete_entries:
  assumes "entries_ok (active_positions b)"
  shows "entries_ok (active_positions (snd (execute_buy_order_complete tc now env analysis b)))"
  using assms
  by (auto simp: execute_buy_order_complete_def Let_def split_beta entries_ok_update
      split: option.splits)

lemma trading_complete_entries:
  assumes "entries_ok (active_positions b)"
  shows "entries_ok (active_positions (process_trading_complete tc now env i b))"
  using assms by (simp add: process_trading_complete_def buy_complete_entries)

lemma discoveries_positions:
  "active_positions (process_discoveries_step now b) = active_positions b"
  by (simp add: process_discoveries_step_def Let_def split: list.splits)

lemma analysis_positions:
  "active_positions (process_analysis_step fc now env b) = active_positions b"
  by (simp add: process_analysis_step_def Let_def split: list.splits option.splits)

lemma reachable_entries_ok:
  assumes "reachable tc fc b"
  shows "entries_ok (active_positions b)"
  using assms
proof (induction rule: reachable.induct)
  case (r_init conn)
  then show ?case by (simp add: entries_ok_def initial_bot_def)
next
  case (r_start b rows)
  then show ?case by (simp add: start_def load_existing_positions_def split: list.splits)
next
  case (r_stop b)
  then show ?case by (simp add: stop_def)
next
  case (r_collect b d)
  then show ?case by (simp add: put_discovery_def)
next
  case (r_discoveries b now)
  then show ?case by (simp add: discoveries_positions)
next
  case (r_analysis b now aenv)
  then show ?case by (simp add: analysis_positions)
next
  case (r_trading_exit b)
  then show ?case by (simp add: trading_loop_exit_def)
next
  case (r_trading_begin b)
  then show ?case by (simp add: trading_begin_positions)
next
  case (r_trading_complete b now tenv i)
  then show ?case by (simp add: trading_complete_entries)
next
  case (r_monitor_position b item now menv)
  then have "token_address (snd item) = fst item"
    by (auto simp: entries_ok_def list_all_iff)
  with r_monitor_position show ?case by (simp add: monitor_position_entries)
next
  case (r_monitor_tick b now menv)
  then show ?case by (simp add: monitor_tick_entries)
next
  case (r_pause b)
  then show ?case by (simp add: pause_def)
next
  case (r_resume b)
  then show ?case by (simp add: resume_def)
qed

lemma live_positions_unique:
  assumes "entries_ok al"
  shows "length (filter (\<lambda>p. token_address p = a \<and> Q p) (map snd al)) \<le> 1"
  using assms
proof (induction al)
  case Nil
  then show ?case by simp
next
  case (Cons item al)
  have rest: "entries_ok al" using Cons.prems by (simp add: entries_ok_def)
  show ?case
  proof (cases "token_address (snd item) = a")
    case True
    have "fst item = a" using Cons.prems True by (simp add: entries_ok_def)
    then have "a \<notin> fst ` set al" using Cons.prems by (auto simp: entries_ok_def)
    moreover have "\<forall>x \<in> set al. token_address (snd x) = fst x"
      using rest by (simp add: entries_ok_def list_all_iff)
    ultimately have "filter (\<lambda>p. token_address p = a \<and> Q p) (map snd al) = []"
      by (force simp: filter_empty_conv)
    then show ?thesis by simp
  next
    case False
    then show ?thesis using Cons.IH [OF rest] by simp
  qed
qed

text \<open>
  In every state the pipeline reaches, each token address has at most one position with
  status OPEN or PARTIAL_CLOSE in the ledger; and \<^verbatim>\<open>_execute_buy_order\<close> for an address
  that has a position in the ledger returns False and changes nothing.
\<close>

lemma reachable_one_live_position:
  assumes "reachable tc fc b"
  shows "length (live_positions b a) \<le> 1"
  using live_positions_unique [OF reachable_entries_ok [OF assms]]
  by (simp add: live_positions_def)

lemma buy_rejected_for_held_address:
  "contract_address (token_discovery analysis) \<in> fst ` set (active_positions b) \<Longrightarrow>
     execute_buy_order tc now env analysis b = (False, b)"
  by (simp add: execute_buy_order_def)

text \<open>The run in which the bot is stopped and started again during a buy.\<close>

lemma signal_b_hype:
  "calculate_social_hype (of_seconds 39) (signal_b (of_seconds 3)) = 837 / 1000"
  by (simp add: calculate_social_hype_def signal_b_def source_weight_def total_seconds_def
      of_seconds_def Let_def)

lemma models_up_prediction:
  assumes "calculate_social_hype t d = 837 / 1000"
  shows "predict_success (models_up t) d market_a =
     \<lparr> success_probability = Some (9037 / 10000), confidence = Some (269 / 320),
       prediction_error = None \<rparr>"
  using assms
  by (simp add: predict_success_def models_up_def ensemble_predictions_def
      score_or_half_def market_a_technical Let_def)

lemma buy_signal_analysis:
  assumes "calculate_social_hype t d = 837 / 1000"
  shows "analyze_token filter_config now (buy_signal_env t) d = Some (buy_analysis d now)"
proof -
  have c: "combined_score 100 market_a (predict_success (models_up t) d market_a)
             = 76308 / 100000"
    by (simp add: combined_score_formula market_a_score models_up_prediction [OF assms]
        py_get_def)
  have r: "get_recommendation filter_config 100 market_a
             (predict_success (models_up t) d market_a) = BUY"
    by (simp add: get_recommendation_def c Let_def filter_config_def)
  have m: "\<not> (100 :: int) < min_safety_score filter_config" by (simp add: filter_config_def)
  show ?thesis
    using r m
    by (simp add: analyze_token_def buy_signal_env_def upstream_env_def get_safety_score_def
        gmgn_only_market_data market_a_filters models_up_prediction [OF assms] Let_def
        buy_analysis_def)
qed

lemma race_admitted:
  "process_discoveries_step (of_seconds 5)
     (process_discoveries_step (of_seconds 4)
        (put_discovery (signal_b (of_seconds 3))
           (put_discovery (signal_a 0) (start [] (initial_bot True)))))
   = (initial_bot True)\<lparr> running := True, trading_loops := 1,
        discovered_tokens := [(token_a, signal_a 0), (token_b, signal_b (of_seconds 3))],
        analysis_queue := [signal_a 0, signal_b (of_seconds 3)] \<rparr>"
  by (simp add: process_discoveries_step_def recently_discovered_def put_discovery_def
      start_def load_existing_positions_def initial_bot_def signal_a_def signal_b_def
      token_a_def token_b_def Let_def)

lemma race_queued_eq:
  "race_queued =
     (initial_bot True)\<lparr> running := True, trading_loops := 1,
        discovered_tokens := [(token_a, signal_a 0), (token_b, signal_b (of_seconds 3))],
        analyzed_tokens := [(token_a, buy_analysis (signal_a 0) (of_seconds 38)),
                            (token_b, buy_analysis (signal_b (of_seconds 3)) (of_seconds 41))],
        tokens_analyzed := 2,
        trading_queue := [buy_analysis (signal_a 0) (of_seconds 38),
                          buy_analysis (signal_b (of_seconds 3)) (of_seconds 41)] \<rparr>"
proof -
  have q: "confidence_score (signal_a 0) = 6 / 10" "contract_address (signal_a 0) = token_a"
    "confidence_score (signal_b (of_seconds 3)) = 6 / 10"
    "contract_address (signal_b (of_seconds 3)) = token_b" "token_b \<noteq> token_a"
    "token_a \<noteq> token_b"
    by (simp_all add: signal_a_def signal_b_def token_a_def token_b_def)
  have f: "filter_passed (buy_analysis d now)" "recommendation (buy_analysis d now) = BUY"
    for d now
    by (simp_all add: buy_analysis_def)
  show ?thesis
    unfolding race_queued_def race_admitted
    by (simp add: process_analysis_step_def buy_signal_analysis [OF signal_a_hype]
        buy_signal_analysis [OF signal_b_hype] q f Let_def initial_bot_def)
qed

lemma race_first_waiting_eq:
  "race_first_waiting =
     race_queued\<lparr> trading_queue := [buy_analysis (signal_b (of_seconds 3)) (of_seconds 41)],
                   buys_in_flight := [buy_analysis (signal_a 0) (of_seconds 38)] \<rparr>"
  unfolding race_first_waiting_def
  by (simp add: race_queued_eq process_trading_begin_def single_position_config_def
      initial_bot_def Let_def buy_analysis_def signal_a_def signal_b_def)

lemma race_both_waiting_eq:
  "race_both_waiting =
     race_queued\<lparr> trading_loops := 2, trading_queue := [],
                   buys_in_flight := [buy_analysis (signal_a 0) (of_seconds 38),
                                      buy_analysis (signal_b (of_seconds 3)) (of_seconds 41)] \<rparr>"
  unfolding race_both_waiting_def race_restarted_def
  by (simp add: race_first_waiting_eq race_queued_eq process_trading_begin_def start_def stop_def
      load_existing_positions_def single_position_config_def initial_bot_def Let_def
      buy_analysis_def signal_a_def signal_b_def)

lemma buy_complete_rich_wallet:
  assumes "connected (solana_trader b)"
  shows "active_positions (snd (execute_buy_order_complete single_position_config now
             (rich_wallet 100 (15 / 1000)) analysis b))
           = AList.update (contract_address (token_discovery analysis))
               (position_a\<lparr> token_address := contract_address (token_discovery analysis),
                             position_symbol := symbol (token_discovery analysis),
                             entry_timestamp := now \<rparr>)
               (active_positions b)"
    and "connected (solana_trader (snd (execute_buy_order_complete single_position_config now
             (rich_wallet 100 (15 / 1000)) analysis b)))"
    and "buys_in_flight (snd (execute_buy_order_complete single_position_config now
             (rich_wallet 100 (15 / 1000)) analysis b)) = buys_in_flight b"
proof -
  have r: "fst (buy_token (rich_wallet 100 (15 / 1000)) (solana_trader b) addr (3 / 2) (2 / 10)) =
     \<lparr> success = True, transaction_id = Some ''raydium_1700000000'', price = Some 100,
       amount_in = Some (3 / 2), amount_out = None, tokens_received = Some (15 / 1000),
       sol_received = None, error = None \<rparr>" for addr
    using assms
      buy_token_success [of "solana_trader b" "rich_wallet 100 (15 / 1000)" 100 "15 / 1000"
        "3 / 2" addr "2 / 10"]
    by (simp add: rich_wallet_def)
  have c: "connected (snd (buy_token env t addr amount sl)) = connected t" for env t addr amount sl
    by (simp add: buy_token_def log_transaction_def Let_def split: option.splits)
  have t: "buy_amount_sol single_position_config = 3 / 2"
    "max_buy_amount_sol single_position_config = 2"
    "buy_slippage single_position_config = 2 / 10"
    "stop_loss_percentage single_position_config = 1 / 2"
    "take_profit_multiplier single_position_config = 10"
    by (simp_all add: single_position_config_def trading_config_def)
  show "active_positions (snd (execute_buy_order_complete single_position_config now
             (rich_wallet 100 (15 / 1000)) analysis b))
           = AList.update (contract_address (token_discovery analysis))
               (position_a\<lparr> token_address := contract_address (token_discovery analysis),
                             position_symbol := symbol (token_discovery analysis),
                             entry_timestamp := now \<rparr>)
               (active_positions b)"
    using r by (simp add: execute_buy_order_complete_def split_beta Let_def t position_a_def)
  show "connected (solana_trader (snd (execute_buy_order_complete single_position_config now
             (rich_wallet 100 (15 / 1000)) analysis b)))"
    using assms r by (simp add: execute_buy_order_complete_def split_beta Let_def t c)
  show "buys_in_flight (snd (execute_buy_order_complete single_position_config now
             (rich_wallet 100 (15 / 1000)) analysis b)) = buys_in_flight b"
    using r by (simp add: execute_buy_order_complete_def split_beta Let_def t)
qed

lemma race_bought_positions:
  "active_positions race_bought =
     [(token_a, position_a\<lparr> entry_timestamp := of_seconds 55 \<rparr>),
      (token_b, position_a\<lparr> token_address := token_b, position_symbol := ''BBB'',
                             entry_timestamp := of_seconds 60 \<rparr>)]"
proof -
  let ?A = "buy_analysis (signal_a 0) (of_seconds 38)"
  let ?B = "buy_analysis (signal_b (of_seconds 3)) (of_seconds 41)"
  let ?w = "rich_wallet 100 (15 / 1000)"
  let ?b1 = "race_both_waiting\<lparr> buys_in_flight := [?B] \<rparr>"
  let ?c1 = "snd (execute_buy_order_complete single_position_config (of_seconds 55) ?w ?A ?b1)"
  let ?b2 = "?c1\<lparr> buys_in_flight := [] \<rparr>"
  have w: "buys_in_flight race_both_waiting = [?A, ?B]" "active_positions race_both_waiting = []"
    "connected (solana_trader race_both_waiting)"
    by (simp_all add: race_both_waiting_eq race_queued_eq initial_bot_def)
  have d: "contract_address (token_discovery ?A) = token_a" "symbol (token_discovery ?A) = ''AAA''"
    "contract_address (token_discovery ?B) = token_b" "symbol (token_discovery ?B) = ''BBB''"
    "token_a \<noteq> token_b" "token_address position_a = token_a" "position_symbol position_a = ''AAA''"
    by (simp_all add: buy_analysis_def signal_a_def signal_b_def token_a_def token_b_def
        position_a_def)
  have e1: "process_trading_complete single_position_config (of_seconds 55) ?w 0 race_both_waiting
              = ?c1"
    by (simp add: process_trading_complete_def w)
  have c1: "active_positions ?c1 = [(token_a, position_a\<lparr> entry_timestamp := of_seconds 55 \<rparr>)]"
    "connected (solana_trader ?c1)" "buys_in_flight ?c1 = [?B]"
    using buy_complete_rich_wallet [of ?b1 "of_seconds 55" ?A] w
    by (simp_all add: d)
  have e2: "race_bought = snd (execute_buy_order_complete single_position_config (of_seconds 60)
                                 ?w ?B ?b2)"
    unfolding race_bought_def e1 using c1 by (simp add: process_trading_complete_def)
  show ?thesis
    unfolding e2
    using buy_complete_rich_wallet(1) [of ?b2 "of_seconds 60" ?B] c1
    by (simp add: d)
qed

lemma race_reachable: "reachable single_position_config filter_config race_bought"
proof -
  let ?R = "reachable single_position_config filter_config"
  have s0: "?R (start [] (initial_bot True))"
    by (intro r_start r_init) (simp add: initial_bot_def)
  have run0: "running (start [] (initial_bot True))"
    by (simp add: start_def load_existing_positions_def)
  have s2: "?R (put_discovery (signal_b (of_seconds 3))
                 (put_discovery (signal_a 0) (start [] (initial_bot True))))"
    by (intro r_collect s0)
  have s3: "?R (process_discoveries_step (of_seconds 4)
                 (put_discovery (signal_b (of_seconds 3))
                    (put_discovery (signal_a 0) (start [] (initial_bot True)))))"
    using run0 by (intro r_discoveries s2) (simp add: put_discovery_def)
  have s4: "?R (process_discoveries_step (of_seconds 5)
                 (process_discoveries_step (of_seconds 4)
                    (put_discovery (signal_b (of_seconds 3))
                       (put_discovery (signal_a 0) (start [] (initial_bot True))))))"
    using run0
    by (intro r_discoveries s3)
       (simp add: put_discovery_def process_discoveries_step_def Let_def split: list.splits)
  have s5: "?R (process_analysis_step filter_config (of_seconds 38) (buy_signal_env (of_seconds 36))
                 (process_discoveries_step (of_seconds 5)
                    (process_discoveries_step (of_seconds 4)
                       (put_discovery (signal_b (of_seconds 3))
                          (put_discovery (signal_a 0) (start [] (initial_bot True)))))))"
    by (intro r_analysis s4) (simp add: race_admitted)
  have s6: "?R race_queued"
    unfolding race_queued_def
    by (intro r_analysis s5)
       (simp add: race_admitted process_analysis_step_def Let_def split: option.splits)
  have s7: "?R race_first_waiting"
    unfolding race_first_waiting_def
    by (intro r_trading_begin s6) (simp_all add: race_queued_eq initial_bot_def)
  have s8: "?R race_restarted"
    unfolding race_restarted_def
    by (intro r_start r_stop s7) (simp add: stop_def)
  have s9: "?R race_both_waiting"
    unfolding race_both_waiting_def
    by (intro r_trading_begin s8)
       (simp_all add: race_restarted_def race_first_waiting_eq race_queued_eq start_def stop_def
          load_existing_positions_def initial_bot_def)
  show ?thesis
    unfolding race_bought_def by (intro r_trading_complete s9)
qed

text \<open>
  Claim C2 fails for the position cap. The cap is 1. The bot is started and two tokens
  are assessed BUY. The trading loop finds the ledger empty, takes the first analysis
  and waits for \<^verbatim>\<open>buy_token\<close>. The bot is stopped and started again before that loop
  evaluates \<^verbatim>\<open>while self.running\<close>: two trading loops are alive. The second finds the
  ledger still empty, takes the second analysis and waits. Both buys succeed, and the
  ledger holds two OPEN positions, one per token: more than \<^verbatim>\<open>max_positions\<close>.
\<close>

theorem position_cap_exceeded_after_restart:
  "reachable single_position_config filter_config race_bought \<and>
   max_positions single_position_config = 1 \<and>
   running race_queued \<and> trading_loops race_queued = 1 \<and> buys_in_flight race_queued = [] \<and>
   active_positions race_first_waiting = [] \<and>
   buys_in_flight race_first_waiting = [buy_analysis (signal_a 0) (of_seconds 38)] \<and>
   running race_restarted \<and> trading_loops race_restarted = 2 \<and>
   active_positions race_both_waiting = [] \<and>
   buys_in_flight race_both_waiting =
     [buy_analysis (signal_a 0) (of_seconds 38),
      buy_analysis (signal_b (of_seconds 3)) (of_seconds 41)] \<and>
   map fst (active_positions race_bought) = [token_a, token_b] \<and>
   map (\<lambda>item. status (snd item)) (active_positions race_bought) = [OPEN, OPEN] \<and>
   length (live_positions race_bought token_a) = 1 \<and>
   length (live_positions race_bought token_b) = 1 \<and>
   max_positions single_position_config < int (length (active_positions race_bought))"
proof -
  have m: "max_positions single_position_config = 1"
    by (simp add: single_position_config_def)
  have q: "running race_queued" "trading_loops race_queued = 1" "buys_in_flight race_queued = []"
    "active_positions race_queued = []"
    by (simp_all add: race_queued_eq initial_bot_def)
  have w1: "active_positions race_first_waiting = []"
    "buys_in_flight race_first_waiting = [buy_analysis (signal_a 0) (of_seconds 38)]"
    by (simp_all add: race_first_waiting_eq q)
  have rs: "running race_restarted" "trading_loops race_restarted = 2"
    by (simp_all add: race_restarted_def start_def stop_def load_existing_positions_def
        race_first_waiting_eq q)
  have w2: "active_positions race_both_waiting = []"
    "buys_in_flight race_both_waiting =
       [buy_analysis (signal_a 0) (of_seconds 38),
        buy_analysis (signal_b (of_seconds 3)) (of_seconds 41)]"
    by (simp_all add: race_both_waiting_eq q)
  have k: "token_b \<noteq> token_a" by (simp add: token_a_def token_b_def)
  have p: "map fst (active_positions race_bought) = [token_a, token_b]"
    "map (\<lambda>item. status (snd item)) (active_positions race_bought) = [OPEN, OPEN]"
    "length (live_positions race_bought token_a) = 1"
    "length (live_positions race_bought token_b) = 1"
    "int (length (active_positions race_bought)) = 2"
    using k by (simp_all add: race_bought_positions live_positions_def position_a_def)
  show ?thesis using race_reachable m q(1-3) w1 rs w2 p by simp
qed

subsection \<open>The monitor tick\<close>

text \<open>
  The body of the monitor loop for one position changes the entry of no other address,
  and what it does to its own entry depends on the rest of the bot only through the
  trader's connection.
\<close>

lemma store_object_dom [simp]: "fst ` set (store_object k q al) = fst ` set al"
  using store_object_keys [of k q al] by (metis set_map)

lemma map_of_store_same: "k \<in> fst ` set al \<Longrightarrow> map_of (store_object k q al) k = Some q"
  by (simp add: store_object_def update_conv')

lemma map_of_store_other: "k' \<noteq> k \<Longrightarrow> map_of (store_object k' q al) k = map_of al k"
  by (simp add: store_object_def update_conv')

lemma map_of_delete_same: "map_of (AList.delete k al) k = None"
  by (simp add: delete_conv')

lemma sell_token_fst_connected:
  "connected t = connected t' \<Longrightarrow>
     fst (sell_token env t a amount sl) = fst (sell_token env t' a amount sl)"
  by (simp add: sell_token_def Let_def split: option.splits)

lemma sell_token_connected: "connected (snd (sell_token env t a amount sl)) = connected t"
  by (simp add: sell_token_def Let_def log_transaction_def split: option.splits)

lemma sell_order_connected:
  "connected (solana_trader (snd (execute_sell_order tc env k position reason b)))
     = connected (solana_trader b)"
  by (simp add: execute_sell_order_def Let_def split_beta sell_token_connected split: option.splits)

lemma sell_order_other:
  assumes "token_address position \<noteq> k" "k' \<noteq> k"
  shows "map_of (active_positions (snd (execute_sell_order tc env k' position reason b))) k
           = map_of (active_positions b) k"
  using assms
  by (simp add: execute_sell_order_def Let_def split_beta map_of_store_other split: option.splits)

lemma sell_order_same:
  assumes "connected (solana_trader b1) = connected (solana_trader b2)"
    and "k \<in> fst ` set (active_positions b1)" and "k \<in> fst ` set (active_positions b2)"
    and "map_of (active_positions b1) k = map_of (active_positions b2) k"
    and "token_address position = k"
  shows "map_of (active_positions (snd (execute_sell_order tc env k position reason b1))) k
           = map_of (active_positions (snd (execute_sell_order tc env k position reason b2))) k"
proof -
  have r: "fst (sell_token env (solana_trader b1) k amount sl)
             = fst (sell_token env (solana_trader b2) k amount sl)" for amount sl
    using assms(1) by (rule sell_token_fst_connected)
  show ?thesis
    using assms(2-5)
    by (simp add: execute_sell_order_def Let_def split_beta r map_of_store_same
        map_of_delete_same split: option.splits)
qed

lemma monitor_exit_connected:
  "connected (solana_trader (monitor_exit tc now env k position b)) = connected (solana_trader b)"
  by (simp add: monitor_exit_def split_beta sell_order_connected)

lemma monitor_exit_other:
  assumes "token_address position \<noteq> k" "k' \<noteq> k"
  shows "map_of (active_positions (monitor_exit tc now env k' position b)) k
           = map_of (active_positions b) k"
  using assms by (simp add: monitor_exit_def split_beta sell_order_other)

lemma monitor_exit_same:
  assumes "connected (solana_trader b1) = connected (solana_trader b2)"
    and "k \<in> fst ` set (active_positions b1)" and "k \<in> fst ` set (active_positions b2)"
    and "map_of (active_positions b1) k = map_of (active_positions b2) k"
    and "token_address position = k"
  shows "map_of (active_positions (monitor_exit tc now env k position b1)) k
           = map_of (active_positions (monitor_exit tc now env k position b2)) k"
  using assms sell_order_same [OF assms]
  by (simp add: monitor_exit_def split_beta)

lemma monitor_position_connected:
  "connected (solana_trader (snd (monitor_position tc now env item b))) = connected (solana_trader b)"
  by (simp add: monitor_position_def Let_def monitor_exit_connected split: option.splits)

lemma monitor_position_other:
  assumes "token_address (snd item) = fst item" "fst item \<noteq> k"
  shows "map_of (active_positions (snd (monitor_position tc now env item b))) k
           = map_of (active_positions b) k"
  using assms
  by (simp add: monitor_position_def Let_def monitor_exit_other map_of_store_other
      split: option.splits)

lemma monitor_position_same:
  assumes "connected (solana_trader b1) = connected (solana_trader b2)"
    and "k \<in> fst ` set (active_positions b1)" and "k \<in> fst ` set (active_positions b2)"
    and "map_of (active_positions b1) k = map_of (active_positions b2) k"
    and "token_address p = k"
  shows "map_of (active_positions (snd (monitor_position tc now env (k, p) b1))) k
           = map_of (active_positions (snd (monitor_position tc now env (k, p) b2))) k"
proof (cases "status p = OPEN")
  case False
  then show ?thesis using assms(4) by (simp add: monitor_position_def)
next
  case open_item: True
  show ?thesis
  proof (cases "price_answer env k")
    case None
    then show ?thesis
      using open_item monitor_exit_same [OF assms]
      by (simp add: monitor_position_def)
  next
    case (Some fetched)
    let ?p1 = "p\<lparr> current_price := fetched \<rparr>"
    let ?p2 = "?p1\<lparr> pnl_percent := ((fetched - entry_price p) / entry_price p) * 100 \<rparr>"
    let ?c1 = "b1\<lparr> active_positions := store_object k ?p2
                 (store_object k ?p1 (active_positions b1)) \<rparr>"
    let ?c2 = "b2\<lparr> active_positions := store_object k ?p2
                 (store_object k ?p1 (active_positions b2)) \<rparr>"
    have x: "map_of (active_positions (monitor_exit tc now env k ?p2 ?c1)) k
               = map_of (active_positions (monitor_exit tc now env k ?p2 ?c2)) k"
      using assms by (intro monitor_exit_same) (simp_all add: map_of_store_same)
    show ?thesis
      using Some open_item x monitor_exit_same [OF assms] assms(2,3)
      by (simp add: monitor_position_def Let_def map_of_store_same)
  qed
qed

text \<open>
  The loop of a tick, when no entry price is zero, leaves each address of its snapshot
  with the entry that the body for that position alone would leave.
\<close>

lemma monitor_loop_other:
  "list_all (\<lambda>item. token_address (snd item) = fst item) items \<Longrightarrow> k \<notin> fst ` set items \<Longrightarrow>
     map_of (active_positions (monitor_loop tc now env items b)) k = map_of (active_positions b) k"
proof (induction items arbitrary: b)
  case Nil
  then show ?case by simp
next
  case (Cons item items)
  have o: "map_of (active_positions (snd (monitor_position tc now env item b))) k
             = map_of (active_positions b) k"
    using Cons.prems by (intro monitor_position_other) auto
  show ?case
    using Cons o by (simp add: split_beta)
qed

lemma monitor_position_no_raise:
  "entry_price (snd item) \<noteq> 0 \<Longrightarrow> \<not> fst (monitor_position tc now env item b)"
  by (simp add: monitor_position_def Let_def split: option.splits)

lemma monitor_loop_entry:
  assumes "distinct (map fst items)"
    and "list_all (\<lambda>item. token_address (snd item) = fst item) items"
    and "list_all (\<lambda>item. entry_price (snd item) \<noteq> 0) items"
    and "(k, p) \<in> set items"
    and "map_of (active_positions b) k = Some p'"
  shows "map_of (active_positions (monitor_loop tc now env items b)) k
           = map_of (active_positions (snd (monitor_position tc now env (k, p) b))) k"
  using assms
proof (induction items arbitrary: b)
  case Nil
  then show ?case by simp
next
  case (Cons item items)
  show ?case
  proof (cases "item = (k, p)")
    case True
    have "k \<notin> fst ` set items" using Cons.prems(1) True by auto
    then have "map_of (active_positions (monitor_loop tc now env items
                  (snd (monitor_position tc now env (k, p) b)))) k
               = map_of (active_positions (snd (monitor_position tc now env (k, p) b))) k"
      using Cons.prems(2) by (intro monitor_loop_other) simp_all
    then show ?thesis using True by (simp add: split_beta)
  next
    case False
    then have in_rest: "(k, p) \<in> set items" using Cons.prems(4) by simp
    then have "k \<in> fst ` set items" by (rule rev_image_eqI) simp
    then have ne: "fst item \<noteq> k" using Cons.prems(1) by auto
    let ?b1 = "snd (monitor_position tc now env item b)"
    have km: "token_address (snd item) = fst item" "token_address p = k"
      using Cons.prems(2) in_rest by (auto simp: list_all_iff)
    have o: "map_of (active_positions ?b1) k = map_of (active_positions b) k"
      using km(1) ne by (rule monitor_position_other)
    have nr: "\<not> fst (monitor_position tc now env item b)"
      using Cons.prems(3) by (intro monitor_position_no_raise) simp
    have ih: "map_of (active_positions (monitor_loop tc now env items ?b1)) k
                = map_of (active_positions (snd (monitor_position tc now env (k, p) ?b1))) k"
      using Cons.prems in_rest o by (intro Cons.IH) simp_all
    have keys: "k \<in> fst ` set (active_positions ?b1)" "k \<in> fst ` set (active_positions b)"
      using o Cons.prems(5) by (auto dest: map_of_SomeD intro: rev_image_eqI simp del: o)
    have "map_of (active_positions (snd (monitor_position tc now env (k, p) ?b1))) k
            = map_of (active_positions (snd (monitor_position tc now env (k, p) b))) k"
      using keys o km(2) by (intro monitor_position_same) (simp_all add: monitor_position_connected)
    then show ?thesis using nr ih by (simp add: split_beta)
  qed
qed

text \<open>
  Claim C8 as stated fails for a position with status PARTIAL_CLOSE: the tick skips it.
  With a moonbag in the ledger and a price of 2000 on offer, above the take-profit price
  1000, the tick changes nothing and the current price of the position stays 100.
\<close>

theorem partial_close_skipped_counterexample:
  "active_positions moonbag_holder =
     [(token_a, position_a\<lparr> status := PARTIAL_CLOSE, tokens_held := Some (225 / 100000),
                           amount_sol := 225 / 1000 \<rparr>)] \<and>
   \<not> paused moonbag_holder \<and>
   price_answer (steady_market 2000) token_a = Some 2000 \<and>
   monitor_positions_tick trading_config (of_seconds 60) (steady_market 2000) moonbag_holder
     = moonbag_holder \<and>
   map_option current_price (map_of (active_positions
       (monitor_positions_tick trading_config (of_seconds 60) (steady_market 2000) moonbag_holder))
       token_a) = Some 100"
  by (simp add: monitor_positions_tick_def moonbag_holder_def monitor_position_def
      steady_market_def initial_bot_def position_a_def)

text \<open>
  Claim C8, amended. On a tick of a bot that is not paused and whose ledger has no entry
  price of zero, for every position \<open>p\<close> of the ledger, stored under \<open>k\<close>: if \<open>p\<close> is
  OPEN and the price lookup returns a non-zero price \<open>c\<close>, the position is refreshed to
  \<open>q\<close>, with current price \<open>c\<close> and PnL% \<open>(c - entry) / entry * 100\<close>, and the exit
  conditions are evaluated on \<open>q\<close>: without an exit the ledger holds \<open>q\<close> after the tick,
  with one it holds what the sell order for that reason leaves; if \<open>p\<close> is OPEN and no
  price is found (or the price is zero), the exit conditions are evaluated on \<open>p\<close> as it
  was; if \<open>p\<close> is not OPEN, the tick leaves it as it was.
\<close>

theorem monitor_tick_open_positions:
  assumes "\<not> paused b" and "entries_ok (active_positions b)"
    and "list_all (\<lambda>item. entry_price (snd item) \<noteq> 0) (active_positions b)"
    and "(k, p) \<in> set (active_positions b)"
    and "q = p\<lparr> current_price := c, pnl_percent := ((c - entry_price p) / entry_price p) * 100 \<rparr>"
    and "bq = b\<lparr> active_positions := store_object k q (active_positions b) \<rparr>"
    and "after = active_positions (monitor_positions_tick tc now env b)"
  shows "(status p = OPEN \<and> price_answer env k = Some c \<and> c \<noteq> 0 \<longrightarrow>
            (\<not> fst (check_exit_conditions now q) \<longrightarrow> map_of after k = Some q) \<and>
            (fst (check_exit_conditions now q) \<longrightarrow>
               map_of after k =
                 map_of (active_positions (snd (execute_sell_order tc (sell_env env k) k q
                           (snd (check_exit_conditions now q)) bq))) k)) \<and>
         (status p = OPEN \<and> (price_answer env k = None \<or> price_answer env k = Some 0) \<longrightarrow>
            (\<not> fst (check_exit_conditions now p) \<longrightarrow> map_of after k = Some p) \<and>
            (fst (check_exit_conditions now p) \<longrightarrow>
               map_of after k =
                 map_of (active_positions (snd (execute_sell_order tc (sell_env env k) k p
                           (snd (check_exit_conditions now p)) b))) k)) \<and>
         (status p \<noteq> OPEN \<longrightarrow> map_of after k = Some p)"
proof -
  have d: "distinct (map fst (active_positions b))"
    and km: "list_all (\<lambda>item. token_address (snd item) = fst item) (active_positions b)"
    using assms(2) by (simp_all add: entries_ok_def)
  have here: "map_of (active_positions b) k = Some p"
    using d assms(4) by simp
  have key: "k \<in> fst ` set (active_positions b)"
    using assms(4) by (rule rev_image_eqI) simp
  have addr: "token_address p = k"
    using km assms(4) by (auto simp: list_all_iff)
  have tick: "map_of after k
                = map_of (active_positions (snd (monitor_position tc now env (k, p) b))) k"
    using assms(1) monitor_loop_entry [OF d km assms(3) assms(4) here]
    by (simp add: assms(7) monitor_positions_tick_def)
  have closed_case: "status p \<noteq> OPEN \<longrightarrow> map_of after k = Some p"
    using here by (simp add: tick monitor_position_def)
  have stale: "status p = OPEN \<and> (price_answer env k = None \<or> price_answer env k = Some 0) \<longrightarrow>
            (\<not> fst (check_exit_conditions now p) \<longrightarrow> map_of after k = Some p) \<and>
            (fst (check_exit_conditions now p) \<longrightarrow>
               map_of after k =
                 map_of (active_positions (snd (execute_sell_order tc (sell_env env k) k p
                           (snd (check_exit_conditions now p)) b))) k)"
    using here by (auto simp: tick monitor_position_def monitor_exit_def split_beta)
  have fresh: "status p = OPEN \<and> price_answer env k = Some c \<and> c \<noteq> 0 \<longrightarrow>
            (\<not> fst (check_exit_conditions now q) \<longrightarrow> map_of after k = Some q) \<and>
            (fst (check_exit_conditions now q) \<longrightarrow>
               map_of after k =
                 map_of (active_positions (snd (execute_sell_order tc (sell_env env k) k q
                           (snd (check_exit_conditions now q)) bq))) k)"
  proof (intro impI, elim conjE)
    assume o: "status p = OPEN" and pr: "price_answer env k = Some c" and nz: "c \<noteq> 0"
    have e0: "entry_price p \<noteq> 0"
      using assms(3,4) by (auto simp: list_all_iff)
    let ?b2 = "b\<lparr> active_positions := store_object k q
                 (store_object k (p\<lparr> current_price := c \<rparr>) (active_positions b)) \<rparr>"
    have m: "snd (monitor_position tc now env (k, p) b) = monitor_exit tc now env k q ?b2"
      using o pr nz e0 by (simp add: monitor_position_def Let_def assms(5))
    have same: "map_of (active_positions (monitor_exit tc now env k q ?b2)) k
                  = map_of (active_positions (monitor_exit tc now env k q bq)) k"
      using key addr
      by (intro monitor_exit_same) (simp_all add: assms(5,6) map_of_store_same)
    have bqk: "map_of (active_positions bq) k = Some q"
      using key by (simp add: assms(6) map_of_store_same)
    show "(\<not> fst (check_exit_conditions now q) \<longrightarrow> map_of after k = Some q) \<and>
            (fst (check_exit_conditions now q) \<longrightarrow>
               map_of after k =
                 map_of (active_positions (snd (execute_sell_order tc (sell_env env k) k q
                           (snd (check_exit_conditions now q)) bq))) k)"
      using bqk by (simp add: tick m same) (simp add: monitor_exit_def split_beta)
  qed
  from fresh stale closed_case show ?thesis by blast
qed

theorem monitor_tick_open_positions_witness:
  "\<not> paused (holding_a 100) \<and>
   entries_ok (active_positions (holding_a 100)) \<and>
   (token_a, position_a\<lparr> current_price := 100 \<rparr>) \<in> set (active_positions (holding_a 100)) \<and>
   status (position_a\<lparr> current_price := 100 \<rparr>) = OPEN \<and>
   price_answer (steady_market 500) token_a = Some 500 \<and>
   check_exit_conditions (of_seconds 60) (position_a\<lparr> current_price := 500, pnl_percent := 400 \<rparr>)
     = (False, NO_REASON) \<and>
   map_of (active_positions (monitor_positions_tick trading_config (of_seconds 60)
             (steady_market 500) (holding_a 100))) token_a
     = Some (position_a\<lparr> current_price := 500, pnl_percent := 400 \<rparr>)"
proof -
  have h1: "\<not> paused (holding_a 100)" by (simp add: holding_a_def initial_bot_def)
  have h2: "entries_ok (active_positions (holding_a 100))"
    by (simp add: holding_a_def entries_ok_def position_a_def)
  have h3: "list_all (\<lambda>item. entry_price (snd item) \<noteq> 0) (active_positions (holding_a 100))"
    by (simp add: holding_a_def position_a_def)
  have h4: "(token_a, position_a\<lparr> current_price := 100 \<rparr>) \<in> set (active_positions (holding_a 100))"
    by (simp add: holding_a_def)
  have q: "(position_a\<lparr> current_price := 100 \<rparr>)\<lparr> current_price := 500,
             pnl_percent := ((500 - entry_price (position_a\<lparr> current_price := 100 \<rparr>))
                              / entry_price (position_a\<lparr> current_price := 100 \<rparr>)) * 100 \<rparr>
           = position_a\<lparr> current_price := 500, pnl_percent := 400 \<rparr>"
    by (simp add: position_a_def)
  have c: "check_exit_conditions (of_seconds 60) (position_a\<lparr> current_price := 500, pnl_percent := 400 \<rparr>)
     = (False, NO_REASON)"
    by (simp add: check_exit_conditions_def position_a_def of_seconds_def total_seconds_def)
  have pr: "price_answer (steady_market 500) token_a = Some 500"
    by (simp add: steady_market_def)
  have st: "status (position_a\<lparr> current_price := 100 \<rparr>) = OPEN" by (simp add: position_a_def)
  from monitor_tick_open_positions [OF h1 h2 h3 h4 refl refl refl,
      where c = 500 and env = "steady_market 500" and now = "of_seconds 60" and tc = trading_config]
  have "map_of (active_positions (monitor_positions_tick trading_config (of_seconds 60)
             (steady_market 500) (holding_a 100))) token_a
     = Some (position_a\<lparr> current_price := 500, pnl_percent := 400 \<rparr>)"
    unfolding q using st pr c by simp
  then show ?thesis using h1 h2 h4 st pr c by simp
qed

end
